theory Spec2Isabelle
  imports Main
begin

section \<open>JavaScript values\<close>

text \<open>
  The two route modules (\<^verbatim>\<open>server/route/snowflake.js\<close> and the Kubernetes route)
  handle untyped JavaScript values: the request body, the objects listed by the
  orchestration client, parsed JSON, and the rows they put into a response.
  An object is the list of its own enumerable properties in enumeration order, so that
  \<^verbatim>\<open>Object.keys\<close> is the list of first components.  Numbers are the integer counts
  and port numbers the routes handle; strings are lists of 8-bit code units.
  \<open>JBuiltin\<close> is a member that a value inherits from a built-in prototype, named by the
  expression that denotes it (\<^verbatim>\<open>Object.prototype.toString\<close>, \<^verbatim>\<open>Object\<close>,
  \<^verbatim>\<open>Array.prototype\<close>): a function or a prototype object.  Requests, the orchestration
  client and \<^verbatim>\<open>JSON.parse\<close> produce none; a read of a property can yield one.
\<close>

datatype jsval =
    JUndefined
  | JNull
  | JBool bool
  | JNum int
  | JStr string
  | JArr "jsval list"
  | JObj "(string \<times> jsval) list"
  | JBuiltin string

datatype error =
    Error string        \<comment> \<open>\<^verbatim>\<open>new Error(message)\<close>, also a rejection of a collaborator\<close>
  | TypeError string    \<comment> \<open>raised by the language on a bad property read or call\<close>
  | SyntaxError string  \<comment> \<open>raised by \<^verbatim>\<open>JSON.parse\<close>\<close>

fun message :: "error \<Rightarrow> string" where
  "message (Error m) = m"
| "message (TypeError m) = m"
| "message (SyntaxError m) = m"

fun truthy :: "jsval \<Rightarrow> bool" where
  "truthy JUndefined = False"
| "truthy JNull = False"
| "truthy (JBool b) = b"
| "truthy (JNum n) = (n \<noteq> 0)"
| "truthy (JStr s) = (s \<noteq> [])"
| "truthy (JArr xs) = True"
| "truthy (JObj kvs) = True"
| "truthy (JBuiltin p) = True"

fun typeof :: "jsval \<Rightarrow> string" where
  "typeof JUndefined = ''undefined''"
| "typeof JNull = ''object''"
| "typeof (JBool b) = ''boolean''"
| "typeof (JNum n) = ''number''"
| "typeof (JStr s) = ''string''"
| "typeof (JArr xs) = ''object''"
| "typeof (JObj kvs) = ''object''"
| "typeof (JBuiltin p) =
     (if p \<in> set [''Object.prototype'', ''Array.prototype'', ''String.prototype'',
                   ''Number.prototype'', ''Boolean.prototype'']
      then ''object'' else ''function'')"

fun nullish :: "jsval \<Rightarrow> bool" where
  "nullish JUndefined = True"
| "nullish JNull = True"
| "nullish v = False"

fun isObject :: "jsval \<Rightarrow> bool" where
  "isObject (JObj kvs) = True"
| "isObject v = False"

text \<open>\<^verbatim>\<open>a || b\<close> on values.\<close>

definition or_else :: "jsval \<Rightarrow> jsval \<Rightarrow> jsval" where
  "or_else a b = (if truthy a then a else b)"

fun str_of :: "jsval \<Rightarrow> string" where
  "str_of (JStr s) = s"
| "str_of v = []"

section \<open>Strings\<close>

text \<open>
  The characters that \<^verbatim>\<open>\s\<close> and \<^verbatim>\<open>trim()\<close> treat as white space, among the code
  units below 256: TAB, LF, VT, FF, CR, SPACE and NBSP.
\<close>

definition is_space :: "char \<Rightarrow> bool" where
  "is_space c = (c \<in> set [CHR 0x09, CHR 0x0A, CHR 0x0B, CHR 0x0C, CHR 0x0D, CHR 0x20, CHR 0xA0])"

definition trim :: "string \<Rightarrow> string" where
  "trim s = rev (dropWhile is_space (rev (dropWhile is_space s)))"

definition startsWith :: "string \<Rightarrow> string \<Rightarrow> bool" where
  "startsWith s p = (take (length p) s = p)"

text \<open>\<^verbatim>\<open>s.substring(0, n)\<close>.\<close>

definition substring0 :: "string \<Rightarrow> nat \<Rightarrow> string" where
  "substring0 s n = take n s"

fun join :: "string \<Rightarrow> string list \<Rightarrow> string" where
  "join sep [] = []"
| "join sep [x] = x"
| "join sep (x # y # ys) = x @ sep @ join sep (y # ys)"

text \<open>
  \<^verbatim>\<open>s.split(sep)\<close> for a separator that is a non-empty string or a regular expression
  without empty matches.  The separator is given by \<open>m\<close>: the length of its match at
  the start of the rest of the string, \<open>0\<close> when it does not match there.
\<close>

function split_from :: "(string \<Rightarrow> nat) \<Rightarrow> string \<Rightarrow> string \<Rightarrow> string list" where
  "split_from m cur [] = [rev cur]"
| "split_from m cur (c # cs) =
     (if 0 < m (c # cs) then rev cur # split_from m [] (drop (m (c # cs)) (c # cs))
      else split_from m (c # cur) cs)"
  by pat_completeness auto
termination
  by (relation "measure (\<lambda>(m, cur, s). length s)") auto

definition split :: "(string \<Rightarrow> nat) \<Rightarrow> string \<Rightarrow> string list" where
  "split m s = split_from m [] s"

text \<open>The separator \<^verbatim>\<open>/\s+/\<close>: a maximal run of white space.\<close>

definition spaces :: "string \<Rightarrow> nat" where
  "spaces s = length (takeWhile is_space s)"

text \<open>A separator that is a string literal.\<close>

definition literal :: "string \<Rightarrow> string \<Rightarrow> nat" where
  "literal sep s = (if startsWith s sep then length sep else 0)"

text \<open>
  The separator \<^verbatim>\<open>/\\s+/\<close> as the Kubernetes route writes it in
  \<^verbatim>\<open>formatKubernetesResult\<close>: in a regular-expression literal \<^verbatim>\<open>\\\<close> is a backslash
  character, so the pattern is a backslash followed by a maximal, non-empty run of the
  letter \<^verbatim>\<open>s\<close>.
\<close>

definition backslash_s_run :: "string \<Rightarrow> nat" where
  "backslash_s_run s =
     (case s of
        [] \<Rightarrow> 0
      | c # cs \<Rightarrow>
          if c = CHR 0x5C \<and> takeWhile (\<lambda>x. x = CHR ''s'') cs \<noteq> []
          then Suc (length (takeWhile (\<lambda>x. x = CHR ''s'') cs))
          else 0)"

text \<open>The decimal digits of a natural number, for the index keys of arrays and strings.\<close>

fun show_nat :: "nat \<Rightarrow> string" where
  "show_nat n =
     (if n < 10 then [''0123456789'' ! n]
      else show_nat (n div 10) @ [''0123456789'' ! (n mod 10)])"

declare show_nat.simps [simp del]

text \<open>The decimal digits of a non-negative integer.\<close>

function decimal :: "int \<Rightarrow> string" where
  "decimal n =
     (if n < 10 then [''0123456789'' ! nat n]
      else decimal (n div 10) @ [''0123456789'' ! nat (n mod 10)])"
  by pat_completeness auto
termination
  by (relation "measure nat") auto

declare decimal.simps [simp del]

text \<open>
  A number is a binary64 value.  \<open>to_double n\<close> is the value that stands for the
  non-negative integer \<open>n\<close>: \<open>n\<close> itself when it has at most 53 significant bits, else
  \<open>n\<close> rounded to 53 significant bits, a tie going to the even neighbour.
\<close>

function bits :: "int \<Rightarrow> nat" where
  "bits n = (if n \<le> 0 then 0 else Suc (bits (n div 2)))"
  by pat_completeness auto
termination
  by (relation "measure nat") auto

declare bits.simps [simp del]

definition to_double :: "int \<Rightarrow> int" where
  "to_double n =
     (if bits n \<le> 53 then n
      else let sh = bits n - 53;
               q = n div 2 ^ sh;
               r = n mod 2 ^ sh;
               half = 2 ^ (sh - 1)
           in (if half < r \<or> (r = half \<and> odd q) then q + 1 else q) * 2 ^ sh)"

text \<open>
  The conversion of a number to a string prints the shortest decimal that still denotes the
  number: the fewest significant digits \<open>k\<close>, and among the decimals of \<open>k\<close> digits that
  denote \<open>x\<close> the closest one, an even last digit deciding a tie.  \<open>same_double x k\<close> lists
  the candidates: the two decimals of \<open>k\<close> digits around \<open>x\<close> that denote \<open>x\<close>.
\<close>

definition same_double :: "int \<Rightarrow> nat \<Rightarrow> int list" where
  "same_double x k =
     (let scale = 10 ^ (length (decimal x) - k);
          smaller = (x div scale) * scale
      in filter (\<lambda>c. to_double c = x) [smaller, smaller + scale])"

definition shortest_decimal :: "int \<Rightarrow> int" where
  "shortest_decimal x =
     (case find (\<lambda>k. same_double x k \<noteq> []) [1..<Suc (length (decimal x))] of
        None \<Rightarrow> x
      | Some k \<Rightarrow>
          (case same_double x k of
             [smaller, larger] \<Rightarrow>
               if x - smaller < larger - x then smaller
               else if larger - x < x - smaller then larger
               else if even (smaller div 10 ^ (length (decimal x) - k)) then smaller else larger
           | c # _ \<Rightarrow> c
           | [] \<Rightarrow> x))"

text \<open>
  A decimal below \<open>10\<^sup>2\<^sup>1\<close> is printed with all its digits, a larger one as
  \<^verbatim>\<open>d.ddde+n\<close> without trailing zeros; a number beyond the largest binary64 value is
  \<^verbatim>\<open>Infinity\<close>.  An integer below \<open>2\<^sup>5\<^sup>3\<close> is held exactly and is its own shortest
  decimal.
\<close>

definition exponent_form :: "int \<Rightarrow> string" where
  "exponent_form c =
     (let ds = decimal c;
          significant = rev (dropWhile (\<lambda>d. d = CHR ''0'') (rev ds))
      in (if length significant = 1 then significant
          else hd significant # CHR ''.'' # tl significant)
         @ ''e+'' @ show_nat (length ds - 1))"

definition show_number :: "int \<Rightarrow> string" where
  "show_number n =
     (if n < 2 ^ 53 then decimal n
      else if 2 ^ 1024 \<le> to_double n then ''Infinity''
      else let c = shortest_decimal (to_double n)
           in if c < 10 ^ 21 then decimal c else exponent_form c)"

text \<open>\<^verbatim>\<open>String(n)\<close> for an integer \<open>n\<close>.\<close>

definition show_int :: "int \<Rightarrow> string" where
  "show_int i = (if i < 0 then CHR ''-'' # show_number (- i) else show_number i)"

text \<open>
  \<^verbatim>\<open>toUpperCase()\<close> on 8-bit code units: the ASCII and Latin-1 letters; sharp s becomes
  \<^verbatim>\<open>SS\<close>.  The two letters whose capitals lie above 255 (micro sign, y with diaeresis)
  stay as they are: the routes only trim the result and compare its start with an ASCII
  literal, which cannot tell the difference.
\<close>

definition upper_char :: "char \<Rightarrow> char" where
  "upper_char c =
     (let n = of_char c :: nat in
      if (97 \<le> n \<and> n \<le> 122) \<or> (224 \<le> n \<and> n \<le> 254 \<and> n \<noteq> 247)
      then char_of (n - 32) else c)"

definition toUpperCase :: "string \<Rightarrow> string" where
  "toUpperCase s = concat (map (\<lambda>c. if c = CHR 0xDF then ''SS'' else [upper_char c]) s)"

section \<open>Property access\<close>

text \<open>
  A property key that is a canonical array index (\<^verbatim>\<open>"0"\<close>, \<^verbatim>\<open>"17"\<close>, no leading zero).
\<close>

definition index_of :: "string \<Rightarrow> nat option" where
  "index_of k =
     (if k \<noteq> [] \<and> list_all (\<lambda>c. c \<in> set ''0123456789'') k \<and> (k = ''0'' \<or> hd k \<noteq> CHR ''0'')
      then Some (foldl (\<lambda>n c. 10 * n + (of_char c - 48)) 0 k)
      else None)"

text \<open>
  The own properties of a value: the entries of an object, the elements and the length of
  an array or a string.
\<close>

fun own_property :: "jsval \<Rightarrow> string \<Rightarrow> jsval option" where
  "own_property (JObj kvs) k = map_of kvs k"
| "own_property (JArr xs) k =
     (if k = ''length'' then Some (JNum (int (length xs)))
      else case index_of k of
             Some i \<Rightarrow> if i < length xs then Some (xs ! i) else None
           | None \<Rightarrow> None)"
| "own_property (JStr s) k =
     (if k = ''length'' then Some (JNum (int (length s)))
      else case index_of k of
             Some i \<Rightarrow> if i < length s then Some (JStr [s ! i]) else None
           | None \<Rightarrow> None)"
| "own_property v k = None"

text \<open>
  The string-keyed members of the built-in prototypes (ECMAScript 2023 with its annex B).
  Every object ends its prototype chain in \<^verbatim>\<open>Object.prototype\<close>; an array, a string, a
  number and a boolean look in the prototype of their class first.
\<close>

definition Object_prototype :: "string list" where
  "Object_prototype =
     [''constructor'', ''__defineGetter__'', ''__defineSetter__'', ''hasOwnProperty'',
      ''__lookupGetter__'', ''__lookupSetter__'', ''isPrototypeOf'', ''propertyIsEnumerable'',
      ''toString'', ''valueOf'', ''__proto__'', ''toLocaleString'']"

definition Array_prototype :: "string list" where
  "Array_prototype =
     [''constructor'', ''at'', ''concat'', ''copyWithin'', ''fill'', ''find'', ''findIndex'',
      ''findLast'', ''findLastIndex'', ''lastIndexOf'', ''pop'', ''push'', ''reverse'', ''shift'',
      ''unshift'', ''slice'', ''sort'', ''splice'', ''includes'', ''indexOf'', ''join'', ''keys'',
      ''entries'', ''values'', ''forEach'', ''filter'', ''flat'', ''flatMap'', ''map'', ''every'',
      ''some'', ''reduce'', ''reduceRight'', ''toLocaleString'', ''toString'', ''toReversed'',
      ''toSorted'', ''toSpliced'', ''with'']"

definition String_prototype :: "string list" where
  "String_prototype =
     [''constructor'', ''anchor'', ''at'', ''big'', ''blink'', ''bold'', ''charAt'', ''charCodeAt'',
      ''codePointAt'', ''concat'', ''endsWith'', ''fontcolor'', ''fontsize'', ''fixed'',
      ''includes'', ''indexOf'', ''italics'', ''lastIndexOf'', ''link'', ''localeCompare'',
      ''match'', ''matchAll'', ''normalize'', ''padEnd'', ''padStart'', ''repeat'', ''replace'',
      ''replaceAll'', ''search'', ''slice'', ''small'', ''split'', ''strike'', ''sub'', ''substr'',
      ''substring'', ''sup'', ''startsWith'', ''toString'', ''trim'', ''trimStart'', ''trimLeft'',
      ''trimEnd'', ''trimRight'', ''toLocaleLowerCase'', ''toLocaleUpperCase'', ''toLowerCase'',
      ''toUpperCase'', ''valueOf'']"

definition Number_prototype :: "string list" where
  "Number_prototype =
     [''constructor'', ''toExponential'', ''toFixed'', ''toPrecision'', ''toString'', ''valueOf'',
      ''toLocaleString'']"

definition Boolean_prototype :: "string list" where
  "Boolean_prototype = [''constructor'', ''toString'', ''valueOf'']"

definition members :: "string \<Rightarrow> string list" where
  "members c =
     (if c = ''Object'' then Object_prototype
      else if c = ''Array'' then Array_prototype
      else if c = ''String'' then String_prototype
      else if c = ''Number'' then Number_prototype
      else if c = ''Boolean'' then Boolean_prototype
      else [])"

text \<open>
  The prototype chain of a value, by class.  The chain of a built-in member is not
  modelled: no route reads a property of a value that it has read from a prototype.
\<close>

fun prototypes :: "jsval \<Rightarrow> string list" where
  "prototypes (JObj kvs) = [''Object'']"
| "prototypes (JArr xs) = [''Array'', ''Object'']"
| "prototypes (JStr s) = [''String'', ''Object'']"
| "prototypes (JNum n) = [''Number'', ''Object'']"
| "prototypes (JBool b) = [''Boolean'', ''Object'']"
| "prototypes v = []"

text \<open>
  The member that \<open>v\<close> inherits under the key \<open>k\<close>, from the first prototype of its chain
  that has one: \<^verbatim>\<open>constructor\<close> is the class itself, the accessor \<^verbatim>\<open>__proto__\<close> gives
  the first prototype of the chain, any other key the function of that name.
\<close>

definition inherited :: "jsval \<Rightarrow> string \<Rightarrow> jsval option" where
  "inherited v k =
     (case find (\<lambda>c. k \<in> set (members c)) (prototypes v) of
        None \<Rightarrow> None
      | Some c \<Rightarrow>
          Some (if k = ''constructor'' then JBuiltin c
                else if k = ''__proto__'' then JBuiltin (hd (prototypes v) @ ''.prototype'')
                else JBuiltin (c @ ''.prototype.'' @ k)))"

text \<open>
  \<^verbatim>\<open>v[k]\<close> on a value that is neither \<^verbatim>\<open>undefined\<close> nor \<^verbatim>\<open>null\<close>: the own property,
  else the inherited member, else \<^verbatim>\<open>undefined\<close>.
\<close>

definition property :: "jsval \<Rightarrow> string \<Rightarrow> jsval" where
  "property v k =
     (case own_property v k of
        Some x \<Rightarrow> x
      | None \<Rightarrow> (case inherited v k of Some m \<Rightarrow> m | None \<Rightarrow> JUndefined))"

text \<open>\<^verbatim>\<open>v.k\<close>: a TypeError on \<^verbatim>\<open>undefined\<close> and \<^verbatim>\<open>null\<close>.\<close>

definition get :: "jsval \<Rightarrow> string \<Rightarrow> error + jsval" where
  "get v k =
     (if nullish v then Inl (TypeError (''Cannot read properties of '' @
          (if v = JNull then ''null'' else ''undefined'') @
          '' (reading '' @ [CHR 0x27] @ k @ [CHR 0x27] @ '')''))
      else Inr (property v k))"

text \<open>\<^verbatim>\<open>v?.k\<close>: \<^verbatim>\<open>undefined\<close> on \<^verbatim>\<open>undefined\<close> and \<^verbatim>\<open>null\<close>.\<close>

definition opt_get :: "jsval \<Rightarrow> string \<Rightarrow> jsval" where
  "opt_get v k = (if nullish v then JUndefined else property v k)"

text \<open>\<^verbatim>\<open>v.k1.k2\<close>...: the reads from left to right, stopping at the first TypeError.\<close>

fun get_path :: "jsval \<Rightarrow> string list \<Rightarrow> error + jsval" where
  "get_path v [] = Inr v"
| "get_path v (k # ks) = (case get v k of Inl e \<Rightarrow> Inl e | Inr w \<Rightarrow> get_path w ks)"

text \<open>Sequencing of computations that may throw.\<close>

definition bind :: "error + 'a \<Rightarrow> ('a \<Rightarrow> error + 'b) \<Rightarrow> error + 'b" where
  "bind r f = (case r of Inl e \<Rightarrow> Inl e | Inr x \<Rightarrow> f x)"

text \<open>\<^verbatim>\<open>xs.map(f)\<close> for a callback that may throw: the first exception ends the loop.\<close>

fun map_throwing :: "('a \<Rightarrow> error + 'b) \<Rightarrow> 'a list \<Rightarrow> error + 'b list" where
  "map_throwing f [] = Inr []"
| "map_throwing f (x # xs) =
     (case f x of
        Inl e \<Rightarrow> Inl e
      | Inr y \<Rightarrow> (case map_throwing f xs of Inl e \<Rightarrow> Inl e | Inr ys \<Rightarrow> Inr (y # ys)))"

text \<open>\<^verbatim>\<open>Object.keys(v)\<close>.\<close>

fun Object_keys :: "jsval \<Rightarrow> error + string list" where
  "Object_keys JUndefined = Inl (TypeError ''Cannot convert undefined or null to object'')"
| "Object_keys JNull = Inl (TypeError ''Cannot convert undefined or null to object'')"
| "Object_keys (JObj kvs) = Inr (map fst kvs)"
| "Object_keys (JArr xs) = Inr (map show_nat [0..<length xs])"
| "Object_keys (JStr s) = Inr (map show_nat [0..<length s])"
| "Object_keys v = Inr []"

text \<open>The conversion to a string that a template literal applies to \<^verbatim>\<open>${v}\<close>.\<close>

fun ToString :: "jsval \<Rightarrow> string" where
  "ToString JUndefined = ''undefined''"
| "ToString JNull = ''null''"
| "ToString (JBool b) = (if b then ''true'' else ''false'')"
| "ToString (JNum n) = show_int n"
| "ToString (JStr s) = s"
| "ToString (JArr xs) = join '','' (map (\<lambda>x. if nullish x then [] else ToString x) xs)"
| "ToString (JObj kvs) = ''[object Object]''"
| "ToString (JBuiltin p) =
     (if p = ''Object.prototype'' then ''[object Object]''
      else if p = ''Array.prototype'' \<or> p = ''String.prototype'' then []
      else if p = ''Number.prototype'' then ''0''
      else if p = ''Boolean.prototype'' then ''false''
      else ''function '' @ rev (takeWhile (\<lambda>c. c \<noteq> CHR ''.'') (rev p)) @ ''() { [native code] }'')"

section \<open>The canonical result envelope\<close>

text \<open>
  The two shapes \<^verbatim>\<open>formatKubernetesResult\<close> returns:
  \<^verbatim>\<open>{columns, rows, rowCount}\<close> is \<open>Tabular columns rows rowCount\<close> and
  \<^verbatim>\<open>{message, rowCount}\<close> is \<open>Message message rowCount\<close>.
\<close>

datatype envelope =
    Tabular "string list" "jsval list list" nat
  | Message string nat

text \<open>
  What a handler sends: \<^verbatim>\<open>res.json({success: true, data, executionTime, query, queryType})\<close>
  is \<open>Success data executionTime query queryType\<close>, and
  \<^verbatim>\<open>res.status(code).json({success: false, error, message, query})\<close> is
  \<open>Failure code error message query\<close>.  A key the handler does not write is \<open>None\<close>.
\<close>

datatype 'd reply =
    Success 'd string string "jsval option"
  | Failure nat string string "string option"

section \<open>The Kubernetes route\<close>

subsection \<open>Collaborators\<close>

text \<open>
  What the route does not compute itself is an input of the model: the outcome of the
  spawned \<^verbatim>\<open>kubectl\<close> process (its \<^verbatim>\<open>close\<close> event with exit code, standard output and
  standard error, or its \<^verbatim>\<open>error\<close> event), the language's \<^verbatim>\<open>JSON.parse\<close> and
  \<^verbatim>\<open>JSON.stringify(v, null, 2)\<close>, the loading of the cluster configuration, the four
  list calls of the orchestration client (the \<^verbatim>\<open>response.body.items\<close> they resolve to,
  or their rejection) and the successive readings of \<^verbatim>\<open>Date.now()\<close>.
\<close>

datatype process_result =
    Closed "int option" string string
  | SpawnError string

record kube_env =
  spawn :: "string \<Rightarrow> string list \<Rightarrow> process_result"
  JSON_parse :: "string \<Rightarrow> error + jsval"
  JSON_stringify :: "jsval \<Rightarrow> string"
  initializeKubeClient :: "error option"
  listPodForAllNamespaces :: "error + jsval list"
  listDeploymentForAllNamespaces :: "error + jsval list"
  listServiceForAllNamespaces :: "error + jsval list"
  listNode :: "error + jsval list"
  Date_now :: "nat \<Rightarrow> int"

text \<open>The calls a request makes to the outside, in order.\<close>

datatype event =
    Spawned string "string list"
  | KubeClientInit
  | ListPods
  | ListDeployments
  | ListServices
  | ListNodes

subsection \<open>\<^verbatim>\<open>executeKubectl\<close>\<close>

definition executeKubectl :: "kube_env \<Rightarrow> string \<Rightarrow> string list \<Rightarrow> (error + jsval) \<times> event list" where
  "executeKubectl env command args =
     (case spawn env ''kubectl'' (command # args) of
        SpawnError msg \<Rightarrow> Inl (Error (''Failed to execute kubectl: '' @ msg))
      | Closed code stdout stderr \<Rightarrow>
          if code = Some 0 then
            (let result = trim stdout in
             if startsWith result ''{'' \<or> startsWith result ''['' then
               (case JSON_parse env result of
                  Inr v \<Rightarrow> Inr v
                | Inl e \<Rightarrow> Inr (JStr (trim stdout)))
             else Inr (JStr result))
          else Inl (Error (''kubectl command failed: '' @ (if stderr \<noteq> [] then stderr else stdout))),
      [Spawned ''kubectl'' (command # args)])"

subsection \<open>\<^verbatim>\<open>executeSQLLikeQuery\<close>\<close>

text \<open>The four projections, each written as the object literal of the source.\<close>

definition project_pod :: "jsval \<Rightarrow> error + jsval" where
  "project_pod pod =
     bind (get_path pod [''metadata'', ''name'']) (\<lambda>name.
     bind (get_path pod [''metadata'', ''namespace'']) (\<lambda>namespace.
     bind (get_path pod [''status'', ''phase'']) (\<lambda>status.
     bind (get_path pod [''metadata'', ''creationTimestamp'']) (\<lambda>created.
     bind (get_path pod [''status'', ''containerStatuses'']) (\<lambda>containerStatuses.
     Inr (JObj
       [(''name'', name),
        (''namespace'', namespace),
        (''status'', status),
        (''created'', created),
        (''restarts'',
           or_else (opt_get (opt_get containerStatuses ''0'') ''restartCount'') (JNum 0))]))))))"

definition project_deployment :: "jsval \<Rightarrow> error + jsval" where
  "project_deployment deployment =
     bind (get_path deployment [''metadata'', ''name'']) (\<lambda>name.
     bind (get_path deployment [''metadata'', ''namespace'']) (\<lambda>namespace.
     bind (get_path deployment [''status'', ''replicas'']) (\<lambda>replicas.
     bind (get_path deployment [''status'', ''readyReplicas'']) (\<lambda>readyReplicas.
     bind (get_path deployment [''status'', ''availableReplicas'']) (\<lambda>availableReplicas.
     bind (get_path deployment [''metadata'', ''creationTimestamp'']) (\<lambda>created.
     Inr (JObj
       [(''name'', name),
        (''namespace'', namespace),
        (''replicas'', or_else replicas (JNum 0)),
        (''ready'', or_else readyReplicas (JNum 0)),
        (''available'', or_else availableReplicas (JNum 0)),
        (''created'', created)])))))))"

text \<open>The template literal \<^verbatim>\<open>`${p.port}:${p.targetPort}/${p.protocol}`\<close>.\<close>

definition port_text :: "jsval \<Rightarrow> error + string" where
  "port_text p =
     bind (get p ''port'') (\<lambda>port.
     bind (get p ''targetPort'') (\<lambda>targetPort.
     bind (get p ''protocol'') (\<lambda>protocol.
     Inr (ToString port @ '':'' @ ToString targetPort @ ''/'' @ ToString protocol))))"

text \<open>
  \<^verbatim>\<open>ports?.map(p => ...).join(', ')\<close>: \<^verbatim>\<open>undefined\<close> when \<open>ports\<close> is absent; calling
  \<^verbatim>\<open>map\<close> on a value that is not an array is a TypeError.
\<close>

definition ports_text :: "jsval \<Rightarrow> error + jsval" where
  "ports_text ports =
     (if nullish ports then Inr JUndefined
      else case ports of
             JArr ps \<Rightarrow> bind (map_throwing port_text ps) (\<lambda>ts. Inr (JStr (join '', '' ts)))
           | _ \<Rightarrow> Inl (TypeError ''service.spec.ports?.map is not a function''))"

definition project_service :: "jsval \<Rightarrow> error + jsval" where
  "project_service service =
     bind (get_path service [''metadata'', ''name'']) (\<lambda>name.
     bind (get_path service [''metadata'', ''namespace'']) (\<lambda>namespace.
     bind (get_path service [''spec'', ''type'']) (\<lambda>type.
     bind (get_path service [''spec'', ''clusterIP'']) (\<lambda>clusterIP.
     bind (get_path service [''spec'', ''ports'']) (\<lambda>ports.
     bind (ports_text ports) (\<lambda>joined.
     Inr (JObj
       [(''name'', name),
        (''namespace'', namespace),
        (''type'', type),
        (''clusterIP'', clusterIP),
        (''ports'', or_else joined (JStr ''N/A''))])))))))"

text \<open>\<^verbatim>\<open>conditions.find(c => c.type === 'Ready')\<close>.\<close>

fun find_Ready :: "jsval list \<Rightarrow> error + jsval" where
  "find_Ready [] = Inr JUndefined"
| "find_Ready (c # cs) =
     (case get c ''type'' of
        Inl e \<Rightarrow> Inl e
      | Inr t \<Rightarrow> if t = JStr ''Ready'' then Inr c else find_Ready cs)"

definition conditions_find_Ready :: "jsval \<Rightarrow> error + jsval" where
  "conditions_find_Ready conditions =
     (case conditions of
        JArr cs \<Rightarrow> find_Ready cs
      | _ \<Rightarrow> if nullish conditions then get conditions ''find''
             else Inl (TypeError ''node.status.conditions.find is not a function''))"

definition project_node :: "jsval \<Rightarrow> error + jsval" where
  "project_node node =
     bind (get_path node [''metadata'', ''name'']) (\<lambda>name.
     bind (get_path node [''status'', ''conditions'']) (\<lambda>conditions.
     bind (conditions_find_Ready conditions) (\<lambda>ready.
     bind (get_path node [''status'', ''nodeInfo'', ''kubeletVersion'']) (\<lambda>version.
     bind (get_path node [''status'', ''nodeInfo'', ''osImage'']) (\<lambda>os.
     bind (get_path node [''status'', ''nodeInfo'', ''architecture'']) (\<lambda>arch.
     bind (get_path node [''metadata'', ''creationTimestamp'']) (\<lambda>created.
     Inr (JObj
       [(''name'', name),
        (''status'', or_else (opt_get ready ''status'') (JStr ''Unknown'')),
        (''version'', version),
        (''os'', os),
        (''arch'', arch),
        (''created'', created)]))))))))"

text \<open>One list call followed by \<^verbatim>\<open>response.body.items.map(projection)\<close>.\<close>

definition list_and_project ::
  "event \<Rightarrow> error + jsval list \<Rightarrow> (jsval \<Rightarrow> error + jsval) \<Rightarrow> (error + jsval) \<times> event list" where
  "list_and_project call response projection =
     (bind response (\<lambda>items. bind (map_throwing projection items) (\<lambda>objs. Inr (JArr objs))),
      [KubeClientInit, call])"

definition executeSQLLikeQuery :: "kube_env \<Rightarrow> string \<Rightarrow> (error + jsval) \<times> event list" where
  "executeSQLLikeQuery env sqlQuery =
     (case initializeKubeClient env of
        Some e \<Rightarrow> (Inl e, [KubeClientInit])
      | None \<Rightarrow>
          let upperQuery = trim (toUpperCase sqlQuery) in
          if startsWith upperQuery ''SELECT * FROM PODS'' then
            list_and_project ListPods (listPodForAllNamespaces env) project_pod
          else if startsWith upperQuery ''SELECT * FROM DEPLOYMENTS'' then
            list_and_project ListDeployments (listDeploymentForAllNamespaces env) project_deployment
          else if startsWith upperQuery ''SELECT * FROM SERVICES'' then
            list_and_project ListServices (listServiceForAllNamespaces env) project_service
          else if startsWith upperQuery ''SELECT * FROM NODES'' then
            list_and_project ListNodes (listNode env) project_node
          else
            (Inl (Error ''Unsupported SQL query. Try: SELECT * FROM PODS|DEPLOYMENTS|SERVICES|NODES''),
             [KubeClientInit]))"

subsection \<open>\<^verbatim>\<open>formatKubernetesResult\<close>\<close>

text \<open>
  The text branch is transcribed as it is written: \<^verbatim>\<open>result.split('\\n')\<close> splits at the
  two characters backslash and \<^verbatim>\<open>n\<close>, and \<^verbatim>\<open>split(/\\s+/)\<close> at a backslash followed
  by letters \<^verbatim>\<open>s\<close>; \<^verbatim>\<open>filter(h => h)\<close> drops the empty pieces.
\<close>

definition format_text :: "string \<Rightarrow> envelope" where
  "format_text result =
     (let lines = filter (\<lambda>line. trim line \<noteq> []) (split (literal [CHR 0x5C, CHR ''n'']) result) in
      if 1 < length lines then
        (let headers = filter (\<lambda>h. h \<noteq> []) (split backslash_s_run (hd lines));
             rows = map (\<lambda>line. map JStr (filter (\<lambda>cell. cell \<noteq> []) (split backslash_s_run line)))
                        (tl lines)
         in Tabular headers rows (length rows))
      else Message result 0)"

text \<open>\<^verbatim>\<open>obj[col] || ''\<close>.\<close>

definition cell :: "jsval \<Rightarrow> string \<Rightarrow> error + jsval" where
  "cell obj col = bind (get obj col) (\<lambda>v. Inr (or_else v (JStr [])))"

definition format_array :: "jsval list \<Rightarrow> error + envelope" where
  "format_array result =
     (case result of
        [] \<Rightarrow> Inr (Message ''No results found'' 0)
      | first # _ \<Rightarrow>
          bind (Object_keys first) (\<lambda>columns.
          bind (map_throwing (\<lambda>obj. map_throwing (cell obj) columns) result) (\<lambda>rows.
          Inr (Tabular columns rows (length rows)))))"

definition formatKubernetesResult :: "kube_env \<Rightarrow> jsval \<Rightarrow> error + envelope" where
  "formatKubernetesResult env result =
     (case result of
        JStr s \<Rightarrow> Inr (format_text s)
      | JArr xs \<Rightarrow> format_array xs
      | _ \<Rightarrow> Inr (Message (JSON_stringify env result) 1))"

subsection \<open>\<^verbatim>\<open>router.post('/execute')\<close>\<close>

definition allowedCommands :: "string list" where
  "allowedCommands =
     [''get'', ''describe'', ''logs'', ''top'', ''explain'',
      ''api-resources'', ''api-versions'', ''cluster-info'']"

text \<open>
  The end of the \<^verbatim>\<open>try\<close> block and the \<^verbatim>\<open>catch\<close> block: a result is formatted and
  sent with the elapsed time; anything thrown so far, also by the formatting, becomes
  the 500 reply.
\<close>

definition respond :: "kube_env \<Rightarrow> string \<Rightarrow> jsval \<Rightarrow> error + jsval \<Rightarrow> envelope reply" where
  "respond env query queryType result =
     (case bind result (formatKubernetesResult env) of
        Inr formatted \<Rightarrow>
          Success formatted (show_int (Date_now env 1 - Date_now env 0) @ ''ms'')
            (substring0 query 200) (Some queryType)
      | Inl e \<Rightarrow>
          Failure 500 ''Query execution failed'' (message e) (Some (substring0 query 200)))"

definition kubernetes_execute :: "kube_env \<Rightarrow> jsval \<Rightarrow> jsval \<Rightarrow> envelope reply \<times> event list" where
  \<open>kubernetes_execute env query queryType0 =
     (let queryType = (if queryType0 = JUndefined then JStr ''kubectl'' else queryType0) in
      if \<not> truthy query \<or> typeof query \<noteq> ''string'' then
        (Failure 400 ''Invalid query'' ''Query must be a non-empty string'' None, [])
      else
        let q = str_of query;
            not_allowed =
              Failure 400 ''Command not allowed''
                (''Only these commands are allowed: '' @ join '', '' allowedCommands) None
        in
        if queryType = JStr ''kubectl'' then
          (case split spaces (trim q) of
             [] \<Rightarrow> (not_allowed, [])
           | command # commandArgs \<Rightarrow>
               if command \<notin> set allowedCommands then (not_allowed, [])
               else (case executeKubectl env command commandArgs of
                       (result, trace) \<Rightarrow> (respond env q queryType result, trace)))
        else if queryType = JStr ''sql'' then
          (case executeSQLLikeQuery env q of
             (result, trace) \<Rightarrow> (respond env q queryType result, trace))
        else
          (respond env q queryType (Inl (Error ''Invalid query type. Use "kubectl" or "sql"'')), []))\<close>

section \<open>Regular expressions\<close>

text \<open>
  The part of the regular-expression language the warehouse route uses, with the
  constructors a matcher by derivatives needs.  \<open>WhiteSpace\<close> is \<^verbatim>\<open>\s\<close>, \<open>Dot\<close> is
  \<^verbatim>\<open>.\<close> (any character but a line terminator).
\<close>

datatype regex =
    Fail
  | Eps
  | Chr char
  | WhiteSpace
  | Dot
  | Or regex regex
  | Then regex regex
  | ZeroOrMore regex
  | OneOrMore regex

text \<open>A pattern with its \<^verbatim>\<open>i\<close> flag.\<close>

datatype RegExp = RegExp regex bool

definition is_line_terminator :: "char \<Rightarrow> bool" where
  "is_line_terminator c = (c = CHR 0x0A \<or> c = CHR 0x0D)"

text \<open>
  Under the \<^verbatim>\<open>i\<close> flag two characters match when their canonical (upper-case) forms
  are equal.
\<close>

definition same_char :: "bool \<Rightarrow> char \<Rightarrow> char \<Rightarrow> bool" where
  "same_char ignoreCase a c = (if ignoreCase then upper_char a = upper_char c else a = c)"

fun accepts_empty :: "regex \<Rightarrow> bool" where
  "accepts_empty Fail = False"
| "accepts_empty Eps = True"
| "accepts_empty (Chr a) = False"
| "accepts_empty WhiteSpace = False"
| "accepts_empty Dot = False"
| "accepts_empty (Or r s) = (accepts_empty r \<or> accepts_empty s)"
| "accepts_empty (Then r s) = (accepts_empty r \<and> accepts_empty s)"
| "accepts_empty (ZeroOrMore r) = True"
| "accepts_empty (OneOrMore r) = accepts_empty r"

text \<open>What is left of a pattern after it has read the character \<open>c\<close>.\<close>

fun deriv :: "bool \<Rightarrow> char \<Rightarrow> regex \<Rightarrow> regex" where
  "deriv i c Fail = Fail"
| "deriv i c Eps = Fail"
| "deriv i c (Chr a) = (if same_char i a c then Eps else Fail)"
| "deriv i c WhiteSpace = (if is_space c then Eps else Fail)"
| "deriv i c Dot = (if is_line_terminator c then Fail else Eps)"
| "deriv i c (Or r s) = Or (deriv i c r) (deriv i c s)"
| "deriv i c (Then r s) =
     (if accepts_empty r then Or (Then (deriv i c r) s) (deriv i c s) else Then (deriv i c r) s)"
| "deriv i c (ZeroOrMore r) = Then (deriv i c r) (ZeroOrMore r)"
| "deriv i c (OneOrMore r) = Then (deriv i c r) (ZeroOrMore r)"

text \<open>The pattern matches some prefix of the string.\<close>

fun matches_prefix :: "bool \<Rightarrow> regex \<Rightarrow> string \<Rightarrow> bool" where
  "matches_prefix i r [] = accepts_empty r"
| "matches_prefix i r (c # cs) = (accepts_empty r \<or> matches_prefix i (deriv i c r) cs)"

text \<open>The pattern matches somewhere in the string, as an unanchored search does.\<close>

fun matches_somewhere :: "bool \<Rightarrow> regex \<Rightarrow> string \<Rightarrow> bool" where
  "matches_somewhere i r [] = accepts_empty r"
| "matches_somewhere i r (c # cs) = (matches_prefix i r (c # cs) \<or> matches_somewhere i r cs)"

text \<open>\<^verbatim>\<open>pattern.test(s)\<close>.\<close>

fun test :: "RegExp \<Rightarrow> string \<Rightarrow> bool" where
  "test (RegExp r i) s = matches_somewhere i r s"

text \<open>A literal word and a sequence of patterns.\<close>

definition lit :: "string \<Rightarrow> regex" where
  "lit w = foldr (\<lambda>c r. Then (Chr c) r) w Eps"

definition seq :: "regex list \<Rightarrow> regex" where
  "seq rs = foldr Then rs Eps"

text \<open>
  The strings a pattern denotes, to say what the matcher computes: \<open>lang i r\<close> is the set
  of strings that \<open>r\<close> matches as a whole.
\<close>

definition conc :: "string set \<Rightarrow> string set \<Rightarrow> string set" where
  "conc A B = {u @ v | u v. u \<in> A \<and> v \<in> B}"

inductive_set star :: "string set \<Rightarrow> string set" for A :: "string set" where
  star_empty: "[] \<in> star A"
| star_step: "u \<in> A \<Longrightarrow> v \<in> star A \<Longrightarrow> u @ v \<in> star A"

fun lang :: "bool \<Rightarrow> regex \<Rightarrow> string set" where
  "lang i Fail = {}"
| "lang i Eps = {[]}"
| "lang i (Chr a) = {[c] | c. same_char i a c}"
| "lang i WhiteSpace = {[c] | c. is_space c}"
| "lang i Dot = {[c] | c. \<not> is_line_terminator c}"
| "lang i (Or r s) = lang i r \<union> lang i s"
| "lang i (Then r s) = conc (lang i r) (lang i s)"
| "lang i (ZeroOrMore r) = star (lang i r)"
| "lang i (OneOrMore r) = conc (lang i r) (star (lang i r))"

text \<open>The pattern's language has a member inside the string.\<close>

definition occurs_in :: "RegExp \<Rightarrow> string \<Rightarrow> bool" where
  "occurs_in p s =
     (case p of RegExp r i \<Rightarrow> \<exists>before found after. s = before @ found @ after \<and> found \<in> lang i r)"

section \<open>The warehouse route\<close>

subsection \<open>Collaborators\<close>

text \<open>
  The driver is an input of the model: whether \<^verbatim>\<open>connection.connect\<close> calls back with an
  error or with a connection, and what \<^verbatim>\<open>connection.execute\<close> passes to \<^verbatim>\<open>complete\<close>:
  an error, or a statement (its columns and its id) with the rows, which may be absent.
  \<open>send_fault\<close> is an exception thrown while the success reply is serialised and sent.
\<close>

type_synonym connection = nat

record driver_column =
  getName :: string
  getType :: string
  isNullable :: bool

record statement =
  getColumns :: "driver_column list"
  getStatementId :: string

record snowflake_env =
  connect :: "error + connection"
  execute :: "connection \<Rightarrow> string \<Rightarrow> error + statement \<times> jsval list option"
  send_fault :: "error option"
  clock :: "nat \<Rightarrow> int"

datatype db_event =
    ConnectFailed
  | Connected connection
  | Executed connection string
  | Destroyed connection

subsection \<open>\<^verbatim>\<open>createConnection\<close> and \<^verbatim>\<open>executeQuery\<close>\<close>

definition createConnection :: "snowflake_env \<Rightarrow> (error + connection) \<times> db_event list" where
  "createConnection env =
     (case connect env of
        Inl err \<Rightarrow> (Inl err, [ConnectFailed])
      | Inr conn \<Rightarrow> (Inr conn, [Connected conn]))"

record column_metadata =
  name :: string
  type :: string
  nullable :: bool

record query_result =
  columns :: "string list"
  columnMetadata :: "column_metadata list"
  rows :: "jsval list"
  rowCount :: nat
  executionTime :: string

definition executeQuery ::
  "snowflake_env \<Rightarrow> connection \<Rightarrow> string \<Rightarrow> (error + query_result) \<times> db_event list" where
  "executeQuery env conn sqlText =
     (case execute env conn sqlText of
        Inl err \<Rightarrow> Inl err
      | Inr (stmt, rs) \<Rightarrow>
          let cols = map (\<lambda>col. \<lparr>name = getName col, type = getType col, nullable = isNullable col\<rparr>)
                         (getColumns stmt)
          in Inr \<lparr>columns = map name cols,
                  columnMetadata = cols,
                  rows = (case rs of Some r \<Rightarrow> r | None \<Rightarrow> []),
                  rowCount = (case rs of Some r \<Rightarrow> length r | None \<Rightarrow> 0),
                  executionTime = getStatementId stmt\<rparr>,
      [Executed conn sqlText])"

subsection \<open>\<^verbatim>\<open>router.post('/execute')\<close>\<close>

definition suspiciousPatterns :: "RegExp list" where
  "suspiciousPatterns =
     [RegExp (seq [lit ''drop'', OneOrMore WhiteSpace, lit ''table'']) True,
      RegExp (seq [lit ''drop'', OneOrMore WhiteSpace, lit ''database'']) True,
      RegExp (seq [lit ''delete'', OneOrMore WhiteSpace, lit ''from'', ZeroOrMore Dot,
                   lit ''where'', ZeroOrMore WhiteSpace, lit ''1'', ZeroOrMore WhiteSpace,
                   lit ''='', ZeroOrMore WhiteSpace, lit ''1'']) True,
      RegExp (seq [lit ''union'', ZeroOrMore Dot, lit ''select'']) True]"

text \<open>
  The \<^verbatim>\<open>try\<close> block: its outcome (the reply sent, or what was thrown), the value of the
  variable \<^verbatim>\<open>connection\<close> when the block is left, and the calls made.
\<close>

definition try_block ::
  "snowflake_env \<Rightarrow> string \<Rightarrow> (error + query_result reply) \<times> connection option \<times> db_event list" where
  "try_block env query =
     (case createConnection env of
        (Inl e, t1) \<Rightarrow> (Inl e, None, t1)
      | (Inr conn, t1) \<Rightarrow>
          (case executeQuery env conn query of
             (Inl e, t2) \<Rightarrow> (Inl e, Some conn, t1 @ t2)
           | (Inr result, t2) \<Rightarrow>
               (case send_fault env of
                  Some e \<Rightarrow> (Inl e, Some conn, t1 @ t2)
                | None \<Rightarrow>
                    (Inr (Success result (show_int (clock env 1 - clock env 0) @ ''ms'')
                            (substring0 query 200) None),
                     Some conn, t1 @ t2))))"

definition snowflake_execute :: "snowflake_env \<Rightarrow> jsval \<Rightarrow> query_result reply \<times> db_event list" where
  "snowflake_execute env query =
     (if \<not> truthy query \<or> typeof query \<noteq> ''string'' then
        (Failure 400 ''Invalid query'' ''Query must be a non-empty string'' None, [])
      else
        let q = str_of query in
        if list_ex (\<lambda>pattern. test pattern q) suspiciousPatterns then
          (Failure 400 ''Query blocked'' ''Query contains potentially dangerous operations'' None, [])
        else
          (case try_block env q of
             (outcome, connection, trace) \<Rightarrow>
               ((case outcome of
                   Inr sent \<Rightarrow> sent
                 | Inl e \<Rightarrow>
                     Failure 500 ''Query execution failed'' (message e) (Some (substring0 q 200))),
                trace @ (case connection of Some conn \<Rightarrow> [Destroyed conn] | None \<Rightarrow> []))))"

text \<open>The connections a trace of calls leaves open.\<close>

fun held :: "db_event list \<Rightarrow> connection list \<Rightarrow> connection list" where
  "held [] open_now = open_now"
| "held (Connected c # es) open_now = held es (c # open_now)"
| "held (Destroyed c # es) open_now = held es (remove1 c open_now)"
| "held (e # es) open_now = held es open_now"

section \<open>Sample collaborators\<close>

text \<open>
  A cluster and a warehouse to run the routes on.  The cluster answers three
  \<^verbatim>\<open>kubectl\<close> invocations (a table, a JSON list, log lines that begin with a bracket)
  and lists two pods, the second of which has not started a container yet;
  \<open>JSON_parse\<close> is given on the texts these invocations print.
\<close>

definition example_cluster :: kube_env where
  \<open>example_cluster =
     \<lparr>spawn = (\<lambda>file argv.
         if argv = [''get'', ''nodes''] then
           Closed (Some 0)
             (''NAME STATUS'' @ [CHR 0x0A] @ ''node-1 Ready'' @ [CHR 0x0A] @ ''node-2 Ready'' @ [CHR 0x0A]) []
         else if argv = [''get'', ''pods'', ''-o'', ''json''] then
           Closed (Some 0) ''[{"name":"web"}]'' []
         else if argv = [''logs'', ''web-1''] then
           Closed (Some 0)
             (''[2024-01-01 10:00:00] server started'' @ [CHR 0x0A] @
              ''[2024-01-01 10:00:05] ready'' @ [CHR 0x0A]) []
         else Closed (Some 1) [] ''error: unknown command''),
      JSON_parse = (\<lambda>text.
         if text = ''[{"name":"web"}]'' then Inr (JArr [JObj [(''name'', JStr ''web'')]])
         else Inl (SyntaxError ''Unexpected token'')),
      JSON_stringify = (\<lambda>v. ''{}''),
      initializeKubeClient = None,
      listPodForAllNamespaces = Inr
        [JObj [(''metadata'', JObj [(''name'', JStr ''web-1''), (''namespace'', JStr ''default''),
                                   (''creationTimestamp'', JStr ''2024-01-01T00:00:00Z'')]),
               (''status'', JObj [(''phase'', JStr ''Running''),
                                 (''containerStatuses'', JArr [JObj [(''restartCount'', JNum 3)]])])],
         JObj [(''metadata'', JObj [(''name'', JStr ''job-1''), (''namespace'', JStr ''batch''),
                                   (''creationTimestamp'', JStr ''2024-01-02T00:00:00Z'')]),
               (''status'', JObj [(''phase'', JStr ''Pending'')])]],
      listDeploymentForAllNamespaces = Inr [],
      listServiceForAllNamespaces = Inr [],
      listNode = Inr [],
      Date_now = (\<lambda>n. 1700000000000 + 12 * int n)\<rparr>\<close>

text \<open>
  The warehouse hands out connection 7, rejects a statement that is blank and answers
  any other statement with one row.
\<close>

definition example_warehouse :: snowflake_env where
  "example_warehouse =
     \<lparr>connect = Inr 7,
      execute = (\<lambda>conn sqlText.
         if trim sqlText = [] then Inl (Error ''SQL compilation error: Empty SQL statement.'')
         else Inr (\<lparr>getColumns = [\<lparr>getName = ''N'', getType = ''fixed'', isNullable = False\<rparr>],
                    getStatementId = ''01b2c3''\<rparr>,
                   Some [JObj [(''N'', JNum 1)]])),
      send_fault = None,
      clock = (\<lambda>n. 1700000000000 + 40 * int n)\<rparr>"

section \<open>Reads of properties\<close>

lemma property_JObj [simp]:
  "property (JObj kvs) k =
     (case map_of kvs k of
        Some v \<Rightarrow> v
      | None \<Rightarrow> (case inherited (JObj kvs) k of Some m \<Rightarrow> m | None \<Rightarrow> JUndefined))"
  by (simp add: property_def)

lemma inherited_JObj:
  "inherited (JObj kvs) k =
     (if k \<in> set Object_prototype
      then Some (if k = ''constructor'' then JBuiltin ''Object''
                 else if k = ''__proto__'' then JBuiltin ''Object.prototype''
                 else JBuiltin (''Object.prototype.'' @ k))
      else None)"
  by (simp add: inherited_def members_def)

lemma property_JArr_element [simp]:
  "property (JArr (x # xs)) ''0'' = x"
  by (simp add: property_def index_of_def)

section \<open>The text of a number\<close>

text \<open>
  What a template literal prints for a number: every digit of an integer below
  \<^verbatim>\<open>2 ** 53\<close>, the shortest digits that denote the same double above it, and the
  exponent form from \<^verbatim>\<open>1e21\<close> on.
\<close>

lemma show_int_examples:
  "show_int 0 = ''0''"
  "show_int (- 5) = ''-5''"
  "show_int 8080 = ''8080''"
  "show_int 9007199254740993 = ''9007199254740992''"
  "show_int 18446744073709551616 = ''18446744073709552000''"
  "show_int 1000000000000000000000 = ''1e+21''"
  "show_int 123456789012345678901234567890 = ''1.2345678901234568e+29''"
  by code_simp+

lemma ToString_examples:
  "ToString (JNum 80) = ''80''"
  "ToString JUndefined = ''undefined''"
  "ToString (JStr ''TCP'') = ''TCP''"
  "ToString (JNum 1000000000000000000000) = ''1e+21''"
  by code_simp+

section \<open>The command whitelist\<close>

lemma split_from_not_Nil: "split_from m cur s \<noteq> []"
  by (induction m cur s rule: split_from.induct) auto

lemma join_allowedCommands:
  "join '', '' allowedCommands =
     ''get, describe, logs, top, explain, api-resources, api-versions, cluster-info''"
  by (simp add: allowedCommands_def)

text \<open>
  C1.  The verb of a native command is the first white-space-delimited word of the trimmed
  text.  When it is not one of the eight allowed commands, the cluster route answers
  400 \<^verbatim>\<open>Command not allowed\<close> with a message that lists the allowed commands, and it has
  made no call to the outside: no process was spawned.
\<close>

theorem verb_outside_whitelist_rejected:
  assumes "text \<noteq> []"
    and "queryType = JUndefined \<or> queryType = JStr ''kubectl''"
    and "hd (split spaces (trim text)) \<notin> set allowedCommands"
  shows "kubernetes_execute env (JStr text) queryType =
           (Failure 400 ''Command not allowed''
              ''Only these commands are allowed: get, describe, logs, top, explain, api-resources, api-versions, cluster-info''
              None,
            [])"
proof (cases "split spaces (trim text)")
  case Nil
  then show ?thesis
    by (simp add: split_def split_from_not_Nil)
next
  case (Cons command commandArgs)
  with assms show ?thesis
    by (auto simp add: kubernetes_execute_def join_allowedCommands)
qed

theorem verb_outside_whitelist_rejected_witness:
  "kubernetes_execute example_cluster (JStr ''delete pods --all'') JUndefined =
           (Failure 400 ''Command not allowed''
              ''Only these commands are allowed: get, describe, logs, top, explain, api-resources, api-versions, cluster-info''
              None,
            [])"
  by (rule verb_outside_whitelist_rejected)
     (simp_all add: split_def spaces_def trim_def is_space_def allowedCommands_def)

section \<open>What the regular-expression matcher computes\<close>

text \<open>
  The matcher by derivatives decides whether the language of the pattern has a member
  inside the string.
\<close>

lemma Nil_in_conc: "[] \<in> conc A B \<longleftrightarrow> [] \<in> A \<and> [] \<in> B"
  by (auto simp: conc_def)

lemma in_concI: "u \<in> A \<Longrightarrow> v \<in> B \<Longrightarrow> u @ v \<in> conc A B"
  by (auto simp: conc_def)

lemma Cons_in_conc:
  "c # w \<in> conc A B \<longleftrightarrow>
     ([] \<in> A \<and> c # w \<in> B) \<or> (\<exists>u v. w = u @ v \<and> c # u \<in> A \<and> v \<in> B)"
proof
  assume "c # w \<in> conc A B"
  then obtain x v where xv: "c # w = x @ v" "x \<in> A" "v \<in> B"
    by (auto simp: conc_def)
  show "([] \<in> A \<and> c # w \<in> B) \<or> (\<exists>u v. w = u @ v \<and> c # u \<in> A \<and> v \<in> B)"
  proof (cases x)
    case Nil
    with xv show ?thesis by simp
  next
    case (Cons d u)
    with xv have "w = u @ v" "c # u \<in> A" by simp_all
    with xv(3) show ?thesis by blast
  qed
next
  assume "([] \<in> A \<and> c # w \<in> B) \<or> (\<exists>u v. w = u @ v \<and> c # u \<in> A \<and> v \<in> B)"
  then show "c # w \<in> conc A B"
  proof
    assume "[] \<in> A \<and> c # w \<in> B"
    then have "[] @ (c # w) \<in> conc A B" by (intro in_concI) simp_all
    then show ?thesis by simp
  next
    assume "\<exists>u v. w = u @ v \<and> c # u \<in> A \<and> v \<in> B"
    then obtain u v where "w = u @ v" "c # u \<in> A" "v \<in> B" by blast
    then have "(c # u) @ v \<in> conc A B" by (intro in_concI)
    with \<open>w = u @ v\<close> show ?thesis by simp
  qed
qed

lemma star_Cons_split:
  "x \<in> star A \<Longrightarrow> x = c # w \<Longrightarrow> \<exists>u v. w = u @ v \<and> c # u \<in> A \<and> v \<in> star A"
proof (induction arbitrary: w rule: star.induct)
  case star_empty
  then show ?case by simp
next
  case (star_step u v)
  show ?case
  proof (cases u)
    case Nil
    with star_step show ?thesis by simp
  next
    case (Cons d u')
    with star_step.prems have "w = u' @ v" "d = c" by simp_all
    with star_step.hyps Cons show ?thesis by blast
  qed
qed

lemma Cons_in_star:
  "c # w \<in> star A \<longleftrightarrow> (\<exists>u v. w = u @ v \<and> c # u \<in> A \<and> v \<in> star A)"
proof
  assume "c # w \<in> star A"
  then show "\<exists>u v. w = u @ v \<and> c # u \<in> A \<and> v \<in> star A"
    by (rule star_Cons_split) simp
next
  assume "\<exists>u v. w = u @ v \<and> c # u \<in> A \<and> v \<in> star A"
  then obtain u v where "w = u @ v" "c # u \<in> A" "v \<in> star A" by blast
  then have "(c # u) @ v \<in> star A" by (intro star_step)
  with \<open>w = u @ v\<close> show "c # w \<in> star A" by simp
qed

lemma accepts_empty_lang: "accepts_empty r \<longleftrightarrow> [] \<in> lang i r"
  by (induction r) (auto simp: Nil_in_conc intro: star_empty)

lemma in_conc_deriv:
  assumes "\<And>u. u \<in> lang i (deriv i c r) \<longleftrightarrow> c # u \<in> lang i r"
  shows "w \<in> conc (lang i (deriv i c r)) B \<longleftrightarrow> (\<exists>u v. w = u @ v \<and> c # u \<in> lang i r \<and> v \<in> B)"
  using assms by (auto simp: conc_def)

lemma lang_deriv: "w \<in> lang i (deriv i c r) \<longleftrightarrow> c # w \<in> lang i r"
proof (induction r arbitrary: w)
  case (Then r s)
  show ?case
    by (simp add: Cons_in_conc in_conc_deriv [OF Then.IH(1)] Then.IH(2) accepts_empty_lang [of r i])
       blast
next
  case (ZeroOrMore r)
  show ?case
    by (simp add: Cons_in_star in_conc_deriv [OF ZeroOrMore.IH])
next
  case (OneOrMore r)
  show ?case
    by (simp add: Cons_in_conc Cons_in_star in_conc_deriv [OF OneOrMore.IH]) blast
qed auto

lemma matches_prefix_iff:
  "matches_prefix i r s \<longleftrightarrow> (\<exists>u v. s = u @ v \<and> u \<in> lang i r)"
proof (induction s arbitrary: r)
  case Nil
  show ?case by (simp add: accepts_empty_lang [of r i])
next
  case (Cons c cs)
  have "(\<exists>u v. c # cs = u @ v \<and> u \<in> lang i r) \<longleftrightarrow>
        [] \<in> lang i r \<or> (\<exists>u v. cs = u @ v \<and> c # u \<in> lang i r)"
    by (auto simp: Cons_eq_append_conv)
  then show ?case
    by (simp add: Cons.IH lang_deriv accepts_empty_lang [of r i])
qed

lemma matches_somewhere_iff:
  "matches_somewhere i r s \<longleftrightarrow> (\<exists>a m b. s = a @ m @ b \<and> m \<in> lang i r)"
proof (induction s)
  case Nil
  show ?case by (simp add: accepts_empty_lang [of r i])
next
  case (Cons c cs)
  have "(\<exists>a m b. c # cs = a @ m @ b \<and> m \<in> lang i r) \<longleftrightarrow>
        (\<exists>m b. c # cs = m @ b \<and> m \<in> lang i r) \<or> (\<exists>a m b. cs = a @ m @ b \<and> m \<in> lang i r)"
    (is "?L \<longleftrightarrow> ?P \<or> ?S")
  proof
    assume ?L
    then obtain a m b where amb: "c # cs = a @ m @ b" "m \<in> lang i r" by blast
    show "?P \<or> ?S"
    proof (cases a)
      case Nil
      with amb show ?thesis by auto
    next
      case (Cons d a')
      with amb have "cs = a' @ m @ b" by simp
      with amb(2) show ?thesis by blast
    qed
  next
    assume "?P \<or> ?S"
    then show ?L
    proof
      assume ?P
      then obtain m b where "c # cs = [] @ m @ b" "m \<in> lang i r" by auto
      then show ?L by blast
    next
      assume ?S
      then obtain a m b where "cs = a @ m @ b" "m \<in> lang i r" by blast
      then have "c # cs = (c # a) @ m @ b" by simp
      with \<open>m \<in> lang i r\<close> show ?L by blast
    qed
  qed
  then show ?case
    using Cons.IH by (simp only: matches_somewhere.simps matches_prefix_iff)
qed

lemma test_iff_occurs_in: "test p s \<longleftrightarrow> occurs_in p s"
  by (cases p) (simp add: occurs_in_def matches_somewhere_iff)

section \<open>The injection guard\<close>

lemma empty_not_suspicious: "\<not> list_ex (\<lambda>pattern. test pattern []) suspiciousPatterns"
  by (simp add: suspiciousPatterns_def seq_def lit_def)

lemma list_ex_test_iff:
  "list_ex (\<lambda>pattern. test pattern s) ps \<longleftrightarrow> (\<exists>pattern \<in> set ps. occurs_in pattern s)"
  by (simp add: list_ex_iff test_iff_occurs_in)

lemma benign_not_flagged:
  "\<not> list_ex (\<lambda>pattern. test pattern ''select * from pods'') suspiciousPatterns"
  "\<not> list_ex (\<lambda>pattern. test pattern ''SELECT * FROM PODS'') suspiciousPatterns"
  "\<not> list_ex (\<lambda>pattern. test pattern ''get nodes'') suspiciousPatterns"
  by code_simp+

lemma not_flagged_not_blocked:
  assumes "\<not> list_ex (\<lambda>pattern. test pattern s) suspiciousPatterns"
  shows "fst (snowflake_execute env (JStr s)) \<noteq>
           Failure 400 ''Query blocked'' ''Query contains potentially dangerous operations'' None"
  using assms
  by (auto simp: snowflake_execute_def try_block_def createConnection_def executeQuery_def
           split: sum.splits option.splits prod.splits)

text \<open>
  C2.  A statement in which one of the four patterns occurs (\<^verbatim>\<open>drop table\<close>,
  \<^verbatim>\<open>drop database\<close>, \<^verbatim>\<open>delete from\<close> ... \<^verbatim>\<open>where 1=1\<close>, \<^verbatim>\<open>union\<close> ... \<^verbatim>\<open>select\<close>,
  in any letter case) is answered with 400 \<^verbatim>\<open>Query blocked\<close> and no call to the
  driver: no connection is opened.  None of the harmless statements that the
  specification gives as examples is flagged, and none of them is answered with
  \<^verbatim>\<open>Query blocked\<close>.
\<close>

theorem injection_guard_blocks:
  "((\<exists>pattern \<in> set suspiciousPatterns. occurs_in pattern statement) \<longrightarrow>
      snowflake_execute env (JStr statement) =
        (Failure 400 ''Query blocked'' ''Query contains potentially dangerous operations'' None, []))
   \<and> (\<forall>benign \<in> set [''select * from pods'', ''SELECT * FROM PODS'', ''get nodes'', []].
        \<not> (\<exists>pattern \<in> set suspiciousPatterns. occurs_in pattern benign) \<and>
        fst (snowflake_execute env (JStr benign)) \<noteq>
          Failure 400 ''Query blocked'' ''Query contains potentially dangerous operations'' None)"
proof (intro conjI impI)
  assume "\<exists>pattern \<in> set suspiciousPatterns. occurs_in pattern statement"
  then have flagged: "list_ex (\<lambda>pattern. test pattern statement) suspiciousPatterns"
    by (simp add: list_ex_test_iff)
  with empty_not_suspicious have "statement \<noteq> []" by auto
  with flagged show "snowflake_execute env (JStr statement) =
      (Failure 400 ''Query blocked'' ''Query contains potentially dangerous operations'' None, [])"
    by (simp add: snowflake_execute_def)
next
  show "\<forall>benign \<in> set [''select * from pods'', ''SELECT * FROM PODS'', ''get nodes'', []].
        \<not> (\<exists>pattern \<in> set suspiciousPatterns. occurs_in pattern benign) \<and>
        fst (snowflake_execute env (JStr benign)) \<noteq>
          Failure 400 ''Query blocked'' ''Query contains potentially dangerous operations'' None"
    using benign_not_flagged empty_not_suspicious
    by (simp add: not_flagged_not_blocked list_ex_test_iff [symmetric] del: test.simps)
qed

lemma spec_examples_flagged:
  "list_ex (\<lambda>pattern. test pattern ''DROP TABLE users'') suspiciousPatterns"
  "list_ex (\<lambda>pattern. test pattern ''SELECT * FROM x UNION SELECT * FROM y'') suspiciousPatterns"
  "list_ex (\<lambda>pattern. test pattern ''DELETE FROM accounts WHERE 1=1'') suspiciousPatterns"
  by code_simp+

theorem injection_guard_blocks_witness:
  "snowflake_execute example_warehouse (JStr ''DROP TABLE users'') =
     (Failure 400 ''Query blocked'' ''Query contains potentially dangerous operations'' None, [])
   \<and> snowflake_execute example_warehouse (JStr ''SELECT * FROM x UNION SELECT * FROM y'') =
     (Failure 400 ''Query blocked'' ''Query contains potentially dangerous operations'' None, [])
   \<and> snowflake_execute example_warehouse (JStr ''DELETE FROM accounts WHERE 1=1'') =
     (Failure 400 ''Query blocked'' ''Query contains potentially dangerous operations'' None, [])"
  using spec_examples_flagged
    injection_guard_blocks [of "''DROP TABLE users''" example_warehouse]
    injection_guard_blocks [of "''SELECT * FROM x UNION SELECT * FROM y''" example_warehouse]
    injection_guard_blocks [of "''DELETE FROM accounts WHERE 1=1''" example_warehouse]
  unfolding list_ex_test_iff by blast

section \<open>Release of the connection\<close>

text \<open>
  C3.  Whatever the driver does and whatever the request is, the calls of a warehouse
  request leave no connection open: a connection that was acquired is destroyed by the
  last call of the request.
\<close>

theorem connection_always_released:
  "held (snd (snowflake_execute env query)) [] = [] \<and>
   (\<forall>conn. Connected conn \<in> set (snd (snowflake_execute env query)) \<longrightarrow>
      last (snd (snowflake_execute env query)) = Destroyed conn)"
  by (auto simp: snowflake_execute_def try_block_def createConnection_def executeQuery_def Let_def
           split: sum.splits option.splits prod.splits)

text \<open>
  The three exits after an acquisition: the statement succeeds, the statement fails, and
  the reply cannot be sent.
\<close>

theorem connection_always_released_witness:
  "last (snd (snowflake_execute example_warehouse (JStr ''SELECT 1''))) = Destroyed 7
   \<and> last (snd (snowflake_execute example_warehouse (JStr ''   ''))) = Destroyed 7
   \<and> last (snd (snowflake_execute
        (example_warehouse\<lparr>send_fault := Some (TypeError ''Do not know how to serialize a BigInt'')\<rparr>)
        (JStr ''SELECT 1''))) = Destroyed 7"
proof -
  have "Connected 7 \<in> set (snd (snowflake_execute example_warehouse (JStr ''SELECT 1'')))"
    "Connected 7 \<in> set (snd (snowflake_execute example_warehouse (JStr ''   '')))"
    "Connected 7 \<in> set (snd (snowflake_execute
        (example_warehouse\<lparr>send_fault := Some (TypeError ''Do not know how to serialize a BigInt'')\<rparr>)
        (JStr ''SELECT 1'')))"
    by code_simp+
  then show ?thesis
    using connection_always_released by blast
qed

section \<open>Empty and blank text\<close>

lemma trim_blank: "list_all is_space s \<Longrightarrow> trim s = []"
proof -
  assume "list_all is_space s"
  then have blank: "dropWhile is_space s = []"
    by (induction s) simp_all
  show "trim s = []"
    unfolding trim_def blank by simp
qed

lemma toUpperCase_blank: "list_all is_space s \<Longrightarrow> toUpperCase s = s"
proof (induction s)
  case Nil
  show ?case by (simp add: toUpperCase_def)
next
  case (Cons c cs)
  have "\<forall>x \<in> set [CHR 0x09, CHR 0x0A, CHR 0x0B, CHR 0x0C, CHR 0x0D, CHR 0x20, CHR 0xA0].
          x \<noteq> CHR 0xDF \<and> upper_char x = x"
    by code_simp
  moreover from Cons.prems
  have "c \<in> set [CHR 0x09, CHR 0x0A, CHR 0x0B, CHR 0x0C, CHR 0x0D, CHR 0x20, CHR 0xA0]"
    by (simp add: is_space_def)
  ultimately have "c \<noteq> CHR 0xDF \<and> upper_char c = c"
    by blast
  with Cons show ?case by (simp add: toUpperCase_def)
qed

lemma letter_is_not_space:
  "is_space c \<Longrightarrow> \<not> same_char True CHR ''d'' c \<and> \<not> same_char True CHR ''u'' c"
proof -
  have "\<forall>x \<in> set [CHR 0x09, CHR 0x0A, CHR 0x0B, CHR 0x0C, CHR 0x0D, CHR 0x20, CHR 0xA0].
          \<not> same_char True CHR ''d'' x \<and> \<not> same_char True CHR ''u'' x"
    by code_simp
  then show "is_space c \<Longrightarrow> \<not> same_char True CHR ''d'' c \<and> \<not> same_char True CHR ''u'' c"
    unfolding is_space_def by blast
qed

lemma first_letter:
  "found \<in> lang i (Then (Then (Chr a) r) s) \<Longrightarrow> \<exists>c rest. found = c # rest \<and> same_char i a c"
  by (auto simp: conc_def)

lemma suspicious_first_letter:
  assumes "RegExp r i \<in> set suspiciousPatterns" and "found \<in> lang i r"
  shows "\<exists>c rest. found = c # rest \<and> (same_char True CHR ''d'' c \<or> same_char True CHR ''u'' c)"
proof -
  from assms(1) obtain a r1 r2 where "r = Then (Then (Chr a) r1) r2" "i = True"
    "a = CHR ''d'' \<or> a = CHR ''u''"
    by (auto simp: suspiciousPatterns_def seq_def lit_def)
  with first_letter [of found i a r1 r2] assms(2) show ?thesis by auto
qed

lemma blank_not_flagged:
  assumes "list_all is_space s"
  shows "\<not> list_ex (\<lambda>pattern. test pattern s) suspiciousPatterns"
proof
  assume "list_ex (\<lambda>pattern. test pattern s) suspiciousPatterns"
  then obtain pattern where p: "pattern \<in> set suspiciousPatterns" "occurs_in pattern s"
    unfolding list_ex_test_iff by blast
  obtain r i where pattern: "pattern = RegExp r i" by (cases pattern)
  from p(2) pattern obtain before found after where
    s: "s = before @ found @ after" and found: "found \<in> lang i r"
    by (auto simp: occurs_in_def)
  from suspicious_first_letter [OF p(1) [unfolded pattern] found]
  obtain c rest where c: "found = c # rest"
    "same_char True CHR ''d'' c \<or> same_char True CHR ''u'' c"
    by blast
  from s c(1) assms have "is_space c" by simp
  with letter_is_not_space c(2) show False by blast
qed

lemma blank_is_no_select:
  "list_all is_space s \<Longrightarrow> \<not> startsWith (trim (toUpperCase s)) (c # cs)"
  by (simp add: toUpperCase_blank trim_blank startsWith_def)

text \<open>
  C4, as amended.  Both routes reject the empty text with 400 \<^verbatim>\<open>Invalid query\<close>,
  \<^verbatim>\<open>Query must be a non-empty string\<close>, before any call to the outside.  A text that is
  not empty and consists of white space only is never answered with that rejection:

    \<^item> the warehouse route answers 500 \<^verbatim>\<open>Query execution failed\<close> after the one failed
      attempt to connect when no connection can be opened; otherwise it opens a
      connection, sends the text to the warehouse, destroys the connection, and answers
      with the warehouse's result, or with 500 \<^verbatim>\<open>Query execution failed\<close> when the
      warehouse or the sending of the reply fails;

    \<^item> the cluster route answers 400 \<^verbatim>\<open>Command not allowed\<close>, with no call to the
      outside, when the query type is \<^verbatim>\<open>kubectl\<close> or omitted; 500
      \<^verbatim>\<open>Query execution failed\<close> with the client's error or \<^verbatim>\<open>Unsupported SQL query\<close>,
      after initializing the cluster client, when the query type is \<^verbatim>\<open>sql\<close>; and 500
      \<^verbatim>\<open>Query execution failed\<close> with \<^verbatim>\<open>Invalid query type\<close>, with no call to the
      outside, for any other query type.
\<close>

theorem empty_text_rejected:
  \<open>kubernetes_execute cluster (JStr []) queryType =
     (Failure 400 ''Invalid query'' ''Query must be a non-empty string'' None, [])
   \<and> snowflake_execute warehouse (JStr []) =
     (Failure 400 ''Invalid query'' ''Query must be a non-empty string'' None, [])
   \<and> (text \<noteq> [] \<and> list_all is_space text \<longrightarrow>
        fst (snowflake_execute warehouse (JStr text)) \<noteq>
          Failure 400 ''Invalid query'' ''Query must be a non-empty string'' None
        \<and> fst (kubernetes_execute cluster (JStr text) queryType) \<noteq>
          Failure 400 ''Invalid query'' ''Query must be a non-empty string'' None
        \<and> (\<forall>e. connect warehouse = Inl e \<longrightarrow>
             snowflake_execute warehouse (JStr text) =
               (Failure 500 ''Query execution failed'' (message e) (Some (substring0 text 200)),
                [ConnectFailed]))
        \<and> (\<forall>conn. connect warehouse = Inr conn \<longrightarrow>
             snowflake_execute warehouse (JStr text) =
               ((case fst (executeQuery warehouse conn text) of
                   Inl e \<Rightarrow>
                     Failure 500 ''Query execution failed'' (message e) (Some (substring0 text 200))
                 | Inr result \<Rightarrow>
                     (case send_fault warehouse of
                        Some e \<Rightarrow>
                          Failure 500 ''Query execution failed'' (message e)
                            (Some (substring0 text 200))
                      | None \<Rightarrow>
                          Success result (show_int (clock warehouse 1 - clock warehouse 0) @ ''ms'')
                            (substring0 text 200) None)),
                [Connected conn, Executed conn text, Destroyed conn]))
        \<and> (queryType = JUndefined \<or> queryType = JStr ''kubectl'' \<longrightarrow>
             kubernetes_execute cluster (JStr text) queryType =
               (Failure 400 ''Command not allowed''
                  ''Only these commands are allowed: get, describe, logs, top, explain, api-resources, api-versions, cluster-info''
                  None,
                []))
        \<and> (queryType = JStr ''sql'' \<longrightarrow>
             kubernetes_execute cluster (JStr text) queryType =
               (Failure 500 ''Query execution failed''
                  (case initializeKubeClient cluster of
                     Some e \<Rightarrow> message e
                   | None \<Rightarrow>
                       ''Unsupported SQL query. Try: SELECT * FROM PODS|DEPLOYMENTS|SERVICES|NODES'')
                  (Some (substring0 text 200)),
                [KubeClientInit]))
        \<and> (queryType \<noteq> JUndefined \<and> queryType \<noteq> JStr ''kubectl'' \<and> queryType \<noteq> JStr ''sql'' \<longrightarrow>
             kubernetes_execute cluster (JStr text) queryType =
               (Failure 500 ''Query execution failed''
                  ''Invalid query type. Use "kubectl" or "sql"'' (Some (substring0 text 200)),
                [])))\<close>
proof (intro conjI impI)
  show "kubernetes_execute cluster (JStr []) queryType =
      (Failure 400 ''Invalid query'' ''Query must be a non-empty string'' None, [])"
    by (simp add: kubernetes_execute_def)
  show "snowflake_execute warehouse (JStr []) =
      (Failure 400 ''Invalid query'' ''Query must be a non-empty string'' None, [])"
    by (simp add: snowflake_execute_def)
next
  assume blank: "text \<noteq> [] \<and> list_all is_space text"
  then have unflagged: "\<not> list_ex (\<lambda>pattern. test pattern text) suspiciousPatterns"
    by (simp add: blank_not_flagged)
  from blank have words: "split spaces (trim text) = [[]]"
    by (simp add: trim_blank split_def)
  have no_verb: "[] \<notin> set allowedCommands"
    by (simp add: allowedCommands_def)
  from blank have no_select: "\<And>c cs. \<not> startsWith (trim (toUpperCase text)) (c # cs)"
    by (simp add: blank_is_no_select)
  from blank unflagged
  show "fst (snowflake_execute warehouse (JStr text)) \<noteq>
      Failure 400 ''Invalid query'' ''Query must be a non-empty string'' None"
    by (auto simp: snowflake_execute_def try_block_def createConnection_def executeQuery_def
             split: sum.splits option.splits prod.splits)
  from blank words no_verb no_select
  show "fst (kubernetes_execute cluster (JStr text) queryType) \<noteq>
      Failure 400 ''Invalid query'' ''Query must be a non-empty string'' None"
    by (auto simp: kubernetes_execute_def Let_def respond_def bind_def executeSQLLikeQuery_def
             split: option.splits)
  from blank unflagged
  show "\<forall>e. connect warehouse = Inl e \<longrightarrow>
      snowflake_execute warehouse (JStr text) =
        (Failure 500 ''Query execution failed'' (message e) (Some (substring0 text 200)),
         [ConnectFailed])"
    by (simp add: snowflake_execute_def try_block_def createConnection_def)
  from blank unflagged
  show "\<forall>conn. connect warehouse = Inr conn \<longrightarrow>
      snowflake_execute warehouse (JStr text) =
        ((case fst (executeQuery warehouse conn text) of
            Inl e \<Rightarrow>
              Failure 500 ''Query execution failed'' (message e) (Some (substring0 text 200))
          | Inr result \<Rightarrow>
              (case send_fault warehouse of
                 Some e \<Rightarrow>
                   Failure 500 ''Query execution failed'' (message e)
                     (Some (substring0 text 200))
               | None \<Rightarrow>
                   Success result (show_int (clock warehouse 1 - clock warehouse 0) @ ''ms'')
                     (substring0 text 200) None)),
         [Connected conn, Executed conn text, Destroyed conn])"
    by (auto simp: snowflake_execute_def try_block_def createConnection_def executeQuery_def
             split: sum.splits option.splits prod.splits)
next
  assume blank: "text \<noteq> [] \<and> list_all is_space text"
    and kubectl: "queryType = JUndefined \<or> queryType = JStr ''kubectl''"
  from blank have words: "split spaces (trim text) = [[]]"
    by (simp add: trim_blank split_def)
  have no_verb: "[] \<notin> set allowedCommands"
    by (simp add: allowedCommands_def)
  from blank kubectl words no_verb
  show "kubernetes_execute cluster (JStr text) queryType =
      (Failure 400 ''Command not allowed''
         ''Only these commands are allowed: get, describe, logs, top, explain, api-resources, api-versions, cluster-info''
         None,
       [])"
    by (auto simp: kubernetes_execute_def join_allowedCommands)
next
  assume blank: "text \<noteq> [] \<and> list_all is_space text" and sql: "queryType = JStr ''sql''"
  from blank have no_select: "\<And>c cs. \<not> startsWith (trim (toUpperCase text)) (c # cs)"
    by (simp add: blank_is_no_select)
  from blank sql no_select
  show "kubernetes_execute cluster (JStr text) queryType =
      (Failure 500 ''Query execution failed''
         (case initializeKubeClient cluster of
            Some e \<Rightarrow> message e
          | None \<Rightarrow>
              ''Unsupported SQL query. Try: SELECT * FROM PODS|DEPLOYMENTS|SERVICES|NODES'')
         (Some (substring0 text 200)),
       [KubeClientInit])"
    by (simp add: kubernetes_execute_def executeSQLLikeQuery_def respond_def bind_def
             split: option.splits)
next
  assume blank: "text \<noteq> [] \<and> list_all is_space text"
    and other: "queryType \<noteq> JUndefined \<and> queryType \<noteq> JStr ''kubectl'' \<and> queryType \<noteq> JStr ''sql''"
  then show \<open>kubernetes_execute cluster (JStr text) queryType =
      (Failure 500 ''Query execution failed''
         ''Invalid query type. Use "kubectl" or "sql"'' (Some (substring0 text 200)),
       [])\<close>
    by (simp add: kubernetes_execute_def respond_def bind_def)
qed

text \<open>
  Three spaces, sent to the warehouse and to the cluster route with each kind of query
  type.
\<close>

theorem empty_text_rejected_witness:
  \<open>kubernetes_execute example_cluster (JStr []) (JStr ''sql'') =
     (Failure 400 ''Invalid query'' ''Query must be a non-empty string'' None, [])
   \<and> snowflake_execute example_warehouse (JStr []) =
     (Failure 400 ''Invalid query'' ''Query must be a non-empty string'' None, [])
   \<and> snowflake_execute example_warehouse (JStr ''   '') =
     (Failure 500 ''Query execution failed'' ''SQL compilation error: Empty SQL statement.''
        (Some ''   ''),
      [Connected 7, Executed 7 ''   '', Destroyed 7])
   \<and> kubernetes_execute example_cluster (JStr ''   '') (JStr ''sql'') =
     (Failure 500 ''Query execution failed''
        ''Unsupported SQL query. Try: SELECT * FROM PODS|DEPLOYMENTS|SERVICES|NODES''
        (Some ''   ''),
      [KubeClientInit])
   \<and> kubernetes_execute example_cluster (JStr ''   '') (JStr ''kubectl'') =
     (Failure 400 ''Command not allowed''
        ''Only these commands are allowed: get, describe, logs, top, explain, api-resources, api-versions, cluster-info''
        None,
      [])
   \<and> kubernetes_execute example_cluster (JStr ''   '') (JStr ''yaml'') =
     (Failure 500 ''Query execution failed''
        ''Invalid query type. Use "kubectl" or "sql"'' (Some ''   ''),
      [])\<close>
proof -
  have blank: "''   '' \<noteq> [] \<and> list_all is_space ''   ''"
    by (simp add: is_space_def)
  have warehouse: "connect example_warehouse = Inr 7"
    "fst (executeQuery example_warehouse 7 ''   '') =
       Inl (Error ''SQL compilation error: Empty SQL statement.'')"
    by (simp_all add: example_warehouse_def executeQuery_def trim_def is_space_def)
  have cluster: "initializeKubeClient example_cluster = None"
    by (simp add: example_cluster_def)
  from blank warehouse cluster
    empty_text_rejected [of example_cluster "JStr ''sql''" example_warehouse "''   ''"]
    empty_text_rejected [of example_cluster "JStr ''kubectl''" example_warehouse "''   ''"]
    empty_text_rejected [of example_cluster "JStr ''yaml''" example_warehouse "''   ''"]
  show ?thesis
    by (simp add: substring0_def)
qed

text \<open>
  A text of three spaces is not rejected as invalid input: the warehouse route opens a
  connection and sends the text to the warehouse, and the cluster route answers with the
  whitelist rejection.
\<close>

theorem whitespace_only_text_counterexample:
  "snowflake_execute example_warehouse (JStr ''   '') =
     (Failure 500 ''Query execution failed'' ''SQL compilation error: Empty SQL statement.''
        (Some ''   ''),
      [Connected 7, Executed 7 ''   '', Destroyed 7])
   \<and> kubernetes_execute example_cluster (JStr ''   '') JUndefined =
     (Failure 400 ''Command not allowed''
        ''Only these commands are allowed: get, describe, logs, top, explain, api-resources, api-versions, cluster-info''
        None,
      [])"
  by code_simp

section \<open>The normalizer on lists of objects\<close>

lemma map_throwing_Inr_iff:
  "map_throwing f xs = Inr ys \<longleftrightarrow> list_all2 (\<lambda>x y. f x = Inr y) xs ys"
proof (induction xs arbitrary: ys)
  case Nil
  show ?case by auto
next
  case (Cons x xs)
  show ?case
  proof (cases "f x")
    case (Inl e)
    then show ?thesis by (auto simp: list_all2_Cons1)
  next
    case (Inr y)
    then show ?thesis
      using Cons.IH by (cases "map_throwing f xs") (auto simp: list_all2_Cons1)
  qed
qed

lemma map_throwing_total:
  assumes "\<And>x. x \<in> set xs \<Longrightarrow> f x = Inr (g x)"
  shows "map_throwing f xs = Inr (map g xs)"
  using assms by (induction xs) simp_all

lemma cell_not_nullish:
  "\<not> nullish obj \<Longrightarrow> cell obj col = Inr (or_else (property obj col) (JStr []))"
  by (simp add: cell_def get_def bind_def)

lemma isObject_not_nullish: "isObject v \<Longrightarrow> \<not> nullish v"
  by (cases v) simp_all

lemma Object_keys_object: "isObject v \<Longrightarrow> \<exists>cols. Object_keys v = Inr cols"
  by (cases v) simp_all

lemma format_array_objects:
  assumes "objs \<noteq> []" and "list_all isObject objs" and "Object_keys (hd objs) = Inr cols"
  shows "format_array objs =
           Inr (Tabular cols
                  (map (\<lambda>obj. map (\<lambda>col. or_else (property obj col) (JStr [])) cols) objs)
                  (length objs))"
proof -
  have row: "map_throwing (cell obj) cols =
               Inr (map (\<lambda>col. or_else (property obj col) (JStr [])) cols)"
    if "obj \<in> set objs" for obj
  proof (rule map_throwing_total)
    from that assms(2) have "\<not> nullish obj"
      by (auto simp: list_all_iff isObject_not_nullish)
    then show "cell obj col = Inr (or_else (property obj col) (JStr []))" for col
      by (rule cell_not_nullish)
  qed
  have "map_throwing (\<lambda>obj. map_throwing (cell obj) cols) objs =
          Inr (map (\<lambda>obj. map (\<lambda>col. or_else (property obj col) (JStr [])) cols) objs)"
    by (rule map_throwing_total) (rule row)
  with assms(1,3) show ?thesis
    by (cases objs) (simp_all add: format_array_def bind_def)
qed

lemma falsy_values: "\<not> truthy v \<longleftrightarrow> v \<in> {JNum 0, JBool False, JNull, JStr [], JUndefined}"
  by (cases v) auto

lemma inherited_is_truthy: "inherited v k = Some m \<Longrightarrow> truthy m"
  by (auto simp: inherited_def split: option.splits)

lemma or_else_property:
  "or_else (property obj col) (JStr []) =
     (case own_property obj col of
        Some v \<Rightarrow> if v \<in> {JNum 0, JBool False, JNull, JStr [], JUndefined} then JStr [] else v
      | None \<Rightarrow> (case inherited obj col of Some m \<Rightarrow> m | None \<Rightarrow> JStr []))"
proof (cases "own_property obj col")
  case (Some v)
  then show ?thesis
    using falsy_values [of v] by (simp add: property_def or_else_def)
next
  case None
  then show ?thesis
    by (auto simp: property_def or_else_def dest: inherited_is_truthy split: option.splits)
qed

lemma own_keys_of_object:
  "isObject obj \<Longrightarrow> Object_keys obj = Inr cols \<Longrightarrow>
     (col \<in> set cols) = (own_property obj col \<noteq> None)"
  by (cases obj) (force simp: map_of_eq_None_iff)+

lemma inherited_by_object:
  "isObject obj \<Longrightarrow> (inherited obj col = None) = (col \<notin> set Object_prototype)"
  by (cases obj) (simp_all add: inherited_JObj)

text \<open>
  C10, as amended.  For a non-empty list of objects the normalizer returns a table with
  one row per object, whose columns are the own keys of the first object: a key that the
  first object lacks gives no column, whereas a key it holds with the value 0 gives a
  column.  In a row, a value that the object holds under the column's key is kept when it
  is truthy and replaced by the empty string when it is falsy (the number 0, \<^verbatim>\<open>false\<close>,
  \<^verbatim>\<open>null\<close>, the empty string, \<^verbatim>\<open>undefined\<close>).  When the object lacks the key, the cell
  is the empty string, unless the column bears the name of a member of
  \<^verbatim>\<open>Object.prototype\<close> (\<^verbatim>\<open>constructor\<close>, \<^verbatim>\<open>toString\<close>, ...): then the cell is that
  inherited member.
\<close>

theorem cells_of_object_lists:
  assumes "objs \<noteq> []" and "list_all isObject objs"
  shows "\<exists>cols.
           Object_keys (hd objs) = Inr cols \<and>
           (\<forall>col. (col \<in> set cols) = (own_property (hd objs) col \<noteq> None)) \<and>
           formatKubernetesResult env (JArr objs) =
             Inr (Tabular cols
                    (map (\<lambda>obj. map (\<lambda>col.
                            case own_property obj col of
                              Some v \<Rightarrow>
                                if v \<in> {JNum 0, JBool False, JNull, JStr [], JUndefined}
                                then JStr [] else v
                            | None \<Rightarrow>
                                (case inherited obj col of Some m \<Rightarrow> m | None \<Rightarrow> JStr [])) cols) objs)
                    (length objs)) \<and>
           (\<forall>obj \<in> set objs. \<forall>col. (inherited obj col = None) = (col \<notin> set Object_prototype))"
proof -
  from assms have first: "isObject (hd objs)"
    by (cases objs) simp_all
  then obtain cols where cols: "Object_keys (hd objs) = Inr cols"
    using Object_keys_object by blast
  have "formatKubernetesResult env (JArr objs) =
          Inr (Tabular cols
                 (map (\<lambda>obj. map (\<lambda>col. or_else (property obj col) (JStr [])) cols) objs)
                 (length objs))"
    using format_array_objects [OF assms cols] by (simp add: formatKubernetesResult_def)
  moreover have "\<forall>col. (col \<in> set cols) = (own_property (hd objs) col \<noteq> None)"
    using own_keys_of_object [OF first cols] by blast
  moreover have "\<forall>obj \<in> set objs. \<forall>col. (inherited obj col = None) = (col \<notin> set Object_prototype)"
    using assms(2) by (simp add: list_all_iff inherited_by_object)
  ultimately show ?thesis
    using cols by (simp add: or_else_property)
qed

theorem cells_of_object_lists_witness:
  "formatKubernetesResult example_cluster
     (JArr [JObj [(''name'', JStr ''web''), (''restarts'', JNum 0), (''ready'', JBool False),
                  (''node'', JNull), (''ip'', JStr [])],
            JObj [(''name'', JStr ''job'')]]) =
   Inr (Tabular [''name'', ''restarts'', ''ready'', ''node'', ''ip'']
          [[JStr ''web'', JStr [], JStr [], JStr [], JStr []],
           [JStr ''job'', JStr [], JStr [], JStr [], JStr []]]
          2)"
  using cells_of_object_lists
    [of "[JObj [(''name'', JStr ''web''), (''restarts'', JNum 0), (''ready'', JBool False),
                (''node'', JNull), (''ip'', JStr [])],
          JObj [(''name'', JStr ''job'')]]" example_cluster]
  by (simp add: inherited_JObj Object_prototype_def)

text \<open>
  A present 0 and a missing key can be told apart.  Under the column \<^verbatim>\<open>constructor\<close> the
  object that holds 0 shows the empty string and the object that lacks the key shows the
  function \<^verbatim>\<open>Object\<close>; and the first object's \<^verbatim>\<open>restarts: 0\<close> makes a column that its
  absence does not make.
\<close>

theorem falsy_cells_counterexample:
  "formatKubernetesResult example_cluster
     (JArr [JObj [(''name'', JStr ''web''), (''constructor'', JNum 0)],
            JObj [(''name'', JStr ''job'')]]) =
   Inr (Tabular [''name'', ''constructor'']
          [[JStr ''web'', JStr []], [JStr ''job'', JBuiltin ''Object'']] 2)
   \<and> formatKubernetesResult example_cluster
         (JArr [JObj [(''name'', JStr ''web''), (''restarts'', JNum 0)]]) =
       Inr (Tabular [''name'', ''restarts''] [[JStr ''web'', JStr []]] 1)
   \<and> formatKubernetesResult example_cluster (JArr [JObj [(''name'', JStr ''web'')]]) =
       Inr (Tabular [''name''] [[JStr ''web'']] 1)"
  by code_simp

section \<open>The shape of the translator's tables\<close>

lemma bind_Inr_iff: "bind r f = Inr y \<longleftrightarrow> (\<exists>x. r = Inr x \<and> f x = Inr y)"
  by (cases r) (simp_all add: bind_def)

lemma bind_Inr [simp]: "bind (Inr x) f = f x"
  by (simp add: bind_def)

lemma bind_Inl [simp]: "bind (Inl e) f = Inl e"
  by (simp add: bind_def)

lemma project_pod_object: "project_pod x = Inr y \<Longrightarrow> isObject y"
  by (auto simp: project_pod_def bind_Inr_iff)

lemma project_deployment_object: "project_deployment x = Inr y \<Longrightarrow> isObject y"
  by (auto simp: project_deployment_def bind_Inr_iff)

lemma project_service_object: "project_service x = Inr y \<Longrightarrow> isObject y"
  by (auto simp: project_service_def bind_Inr_iff)

lemma project_node_object: "project_node x = Inr y \<Longrightarrow> isObject y"
  by (auto simp: project_node_def bind_Inr_iff)

lemma list_and_project_objects:
  assumes "list_and_project call response projection = (Inr result, trace)"
    and "\<And>x y. projection x = Inr y \<Longrightarrow> isObject y"
  shows "\<exists>objs. result = JArr objs \<and> list_all isObject objs"
proof -
  from assms(1) obtain items objs where
    "map_throwing projection items = Inr objs" and result: "result = JArr objs"
    by (auto simp: list_and_project_def bind_Inr_iff)
  then have "list_all2 (\<lambda>x y. projection x = Inr y) items objs"
    by (simp add: map_throwing_Inr_iff)
  then have "list_all isObject objs"
    using assms(2) by (induction rule: list_all2_induct) simp_all
  with result show ?thesis by blast
qed

lemma executeSQLLikeQuery_objects:
  assumes "executeSQLLikeQuery env sqlQuery = (Inr result, trace)"
  shows "\<exists>objs. result = JArr objs \<and> list_all isObject objs"
  using assms
  by (auto simp: executeSQLLikeQuery_def Let_def
           split: option.splits if_splits
           dest: list_and_project_objects [OF _ project_pod_object]
                 list_and_project_objects [OF _ project_deployment_object]
                 list_and_project_objects [OF _ project_service_object]
                 list_and_project_objects [OF _ project_node_object])

text \<open>
  C8.  Whatever the translator returns is normalized without an error; the result is a
  table, or the message for an empty list.  In the table the row count is the number of
  rows and every row has exactly as many cells as there are columns.
\<close>

theorem translator_rows_match_columns:
  assumes "executeSQLLikeQuery env sqlQuery = (Inr result, trace)"
  shows "case formatKubernetesResult env result of
           Inr (Tabular cols rws n) \<Rightarrow>
             n = length rws \<and> list_all (\<lambda>row. length row = length cols) rws
         | Inr (Message text n) \<Rightarrow> result = JArr []
         | Inl e \<Rightarrow> False"
proof -
  from assms obtain objs where result: "result = JArr objs" and objs: "list_all isObject objs"
    using executeSQLLikeQuery_objects by blast
  show ?thesis
  proof (cases "objs = []")
    case True
    with result show ?thesis
      by (simp add: formatKubernetesResult_def format_array_def)
  next
    case False
    with objs have "isObject (hd objs)"
      by (cases objs) simp_all
    then obtain cols where "Object_keys (hd objs) = Inr cols"
      using Object_keys_object by blast
    from format_array_objects [OF False objs this] result show ?thesis
      by (simp add: formatKubernetesResult_def list_all_iff)
  qed
qed

theorem translator_rows_match_columns_witness:
  "formatKubernetesResult example_cluster
     (JArr [JObj [(''name'', JStr ''web-1''), (''namespace'', JStr ''default''),
                  (''status'', JStr ''Running''), (''created'', JStr ''2024-01-01T00:00:00Z''),
                  (''restarts'', JNum 3)],
            JObj [(''name'', JStr ''job-1''), (''namespace'', JStr ''batch''),
                  (''status'', JStr ''Pending''), (''created'', JStr ''2024-01-02T00:00:00Z''),
                  (''restarts'', JNum 0)]]) =
   Inr (Tabular [''name'', ''namespace'', ''status'', ''created'', ''restarts'']
          [[JStr ''web-1'', JStr ''default'', JStr ''Running'', JStr ''2024-01-01T00:00:00Z'', JNum 3],
           [JStr ''job-1'', JStr ''batch'', JStr ''Pending'', JStr ''2024-01-02T00:00:00Z'', JStr []]]
          2)
   \<and> list_all (\<lambda>row. length row = length [''name'', ''namespace'', ''status'', ''created'', ''restarts''])
          [[JStr ''web-1'', JStr ''default'', JStr ''Running'', JStr ''2024-01-01T00:00:00Z'', JNum 3],
           [JStr ''job-1'', JStr ''batch'', JStr ''Pending'', JStr ''2024-01-02T00:00:00Z'', JStr []]]"
proof -
  let ?result = "JArr [JObj [(''name'', JStr ''web-1''), (''namespace'', JStr ''default''),
                  (''status'', JStr ''Running''), (''created'', JStr ''2024-01-01T00:00:00Z''),
                  (''restarts'', JNum 3)],
            JObj [(''name'', JStr ''job-1''), (''namespace'', JStr ''batch''),
                  (''status'', JStr ''Pending''), (''created'', JStr ''2024-01-02T00:00:00Z''),
                  (''restarts'', JNum 0)]]"
  have run: "executeSQLLikeQuery example_cluster ''SELECT * FROM PODS'' =
               (Inr ?result, [KubeClientInit, ListPods])"
    by code_simp
  have fmt: "formatKubernetesResult example_cluster ?result =
     Inr (Tabular [''name'', ''namespace'', ''status'', ''created'', ''restarts'']
          [[JStr ''web-1'', JStr ''default'', JStr ''Running'', JStr ''2024-01-01T00:00:00Z'', JNum 3],
           [JStr ''job-1'', JStr ''batch'', JStr ''Pending'', JStr ''2024-01-02T00:00:00Z'', JStr []]]
          2)"
    by code_simp
  from translator_rows_match_columns [OF run] show ?thesis
    unfolding fmt by simp
qed

section \<open>The projections on partial objects\<close>

lemma get_present: "\<not> nullish v \<Longrightarrow> get v k = Inr (property v k)"
  by (simp add: get_def)

lemma get_path_2:
  "\<not> nullish v \<Longrightarrow> \<not> nullish (property v a) \<Longrightarrow>
     get_path v [a, b] = Inr (property (property v a) b)"
  by (simp add: get_present)


lemma project_pod_present:
  assumes "\<not> nullish pod"
    and "\<not> nullish (property pod ''metadata'')"
    and "\<not> nullish (property pod ''status'')"
  shows "project_pod pod =
           Inr (JObj
             [(''name'', property (property pod ''metadata'') ''name''),
              (''namespace'', property (property pod ''metadata'') ''namespace''),
              (''status'', property (property pod ''status'') ''phase''),
              (''created'', property (property pod ''metadata'') ''creationTimestamp''),
              (''restarts'',
                 or_else (opt_get (opt_get (property (property pod ''status'') ''containerStatuses'') ''0'')
                            ''restartCount'') (JNum 0))])"
  using assms by (simp add: project_pod_def get_path_2 del: get_path.simps)






















section \<open>Plain text in the normalizer\<close>

lemma literal_backslash_no_match:
  "c \<noteq> CHR 0x5C \<Longrightarrow> literal (CHR 0x5C # sep) (c # cs) = 0"
  by (auto simp: literal_def startsWith_def)

lemma split_from_without_backslash:
  "CHR 0x5C \<notin> set s \<Longrightarrow> split_from (literal (CHR 0x5C # sep)) cur s = [rev cur @ s]"
proof (induction s arbitrary: cur)
  case Nil
  show ?case by simp
next
  case (Cons c cs)
  then have "c \<noteq> CHR 0x5C" and rest: "CHR 0x5C \<notin> set cs" by auto
  then have "literal (CHR 0x5C # sep) (c # cs) = 0"
    by (simp add: literal_backslash_no_match)
  then show ?case
    using Cons.IH [OF rest, of "c # cur"] by simp
qed

text \<open>
  C5, where the code departs from it.  The text branch splits at the two characters
  backslash and \<^verbatim>\<open>n\<close>, not at line feeds.  So a text that contains no backslash, however
  many lines it has, is one piece: the normalizer returns it whole as a message with row
  count 0 and never builds a table from its lines.
\<close>

theorem text_without_backslash_stays_message:
  assumes "CHR 0x5C \<notin> set text"
  shows "formatKubernetesResult env (JStr text) = Inr (Message text 0)"
proof -
  have "split (literal [CHR 0x5C, CHR ''n'']) text = [text]"
    using split_from_without_backslash [OF assms, of "[CHR ''n'']" "[]"] by (simp add: split_def)
  then show ?thesis
    by (simp add: formatKubernetesResult_def format_text_def)
qed

text \<open>
  The table that \<^verbatim>\<open>kubectl get nodes\<close> prints, a header line and two data lines, comes
  back as a message.
\<close>

theorem text_without_backslash_stays_message_witness:
  "kubernetes_execute example_cluster (JStr ''get nodes'') JUndefined =
     (Success
        (Message (''NAME STATUS'' @ [CHR 0x0A] @ ''node-1 Ready'' @ [CHR 0x0A] @ ''node-2 Ready'') 0)
        ''12ms'' ''get nodes'' (Some (JStr ''kubectl'')),
      [Spawned ''kubectl'' [''get'', ''nodes'']])"
proof -
  let ?out = "''NAME STATUS'' @ [CHR 0x0A] @ ''node-1 Ready'' @ [CHR 0x0A] @ ''node-2 Ready''"
  have run: "executeKubectl example_cluster ''get'' [''nodes''] =
               (Inr (JStr ?out), [Spawned ''kubectl'' [''get'', ''nodes'']])"
    by code_simp
  have words: "split spaces (trim ''get nodes'') = [''get'', ''nodes'']"
    by code_simp
  have fmt: "formatKubernetesResult example_cluster (JStr ?out) = Inr (Message ?out 0)"
    by (rule text_without_backslash_stays_message) simp
  have ms: "show_int (Date_now example_cluster 1 - Date_now example_cluster 0) = ''12''"
    by code_simp
  show ?thesis
    using run words fmt ms
    by (simp add: kubernetes_execute_def respond_def allowedCommands_def substring0_def)
qed

section \<open>The pods query\<close>

lemma select_pods_upper: "trim (toUpperCase ''SELECT * FROM PODS'') = ''SELECT * FROM PODS''"
  by code_simp

lemma zero_default_then_empty_default:
  "or_else (or_else v (JNum 0)) (JStr []) = (if truthy v then v else JStr [])"
  by (simp add: or_else_def)

lemma example_clock:
  "show_int (Date_now example_cluster (Suc 0) - Date_now example_cluster 0) = ''12''"
  by code_simp

text \<open>
  C7, where the code departs from it.  For \<^verbatim>\<open>SELECT * FROM PODS\<close> over a non-empty list
  of pods that have \<^verbatim>\<open>metadata\<close> and \<^verbatim>\<open>status\<close>, the reply is a table with the columns
  \<^verbatim>\<open>name\<close>, \<^verbatim>\<open>namespace\<close>, \<^verbatim>\<open>status\<close>, \<^verbatim>\<open>created\<close>, \<^verbatim>\<open>restarts\<close> in this order and
  one row of five cells per pod: the pod's name, namespace, phase and creation time, each
  replaced by the empty string when it is absent, and the restart count of the first
  container.  The \<^verbatim>\<open>restarts\<close> cell is that count when the count is truthy, and the empty
  string otherwise: the 0 that the projection writes for an absent count is itself
  replaced by \<^verbatim>\<open>obj[col] || ''\<close>.
\<close>

theorem select_pods_table:
  assumes "initializeKubeClient env = None"
    and "listPodForAllNamespaces env = Inr pods"
    and "pods \<noteq> []"
    and "list_all (\<lambda>pod. \<not> nullish pod \<and> \<not> nullish (property pod ''metadata'') \<and>
                        \<not> nullish (property pod ''status'')) pods"
  shows "kubernetes_execute env (JStr ''SELECT * FROM PODS'') (JStr ''sql'') =
           (Success
              (Tabular [''name'', ''namespace'', ''status'', ''created'', ''restarts'']
                 (map (\<lambda>pod.
                    [or_else (property (property pod ''metadata'') ''name'') (JStr []),
                     or_else (property (property pod ''metadata'') ''namespace'') (JStr []),
                     or_else (property (property pod ''status'') ''phase'') (JStr []),
                     or_else (property (property pod ''metadata'') ''creationTimestamp'') (JStr []),
                     (let count = opt_get (opt_get (property (property pod ''status'')
                                             ''containerStatuses'') ''0'') ''restartCount''
                      in if truthy count then count else JStr [])]) pods)
                 (length pods))
              (show_int (Date_now env 1 - Date_now env 0) @ ''ms'')
              ''SELECT * FROM PODS'' (Some (JStr ''sql'')),
            [KubeClientInit, ListPods])"
proof -
  let ?count = "\<lambda>pod. opt_get (opt_get (property (property pod ''status'') ''containerStatuses'') ''0'')
                         ''restartCount''"
  let ?proj = "\<lambda>pod. JObj
             [(''name'', property (property pod ''metadata'') ''name''),
              (''namespace'', property (property pod ''metadata'') ''namespace''),
              (''status'', property (property pod ''status'') ''phase''),
              (''created'', property (property pod ''metadata'') ''creationTimestamp''),
              (''restarts'', or_else (?count pod) (JNum 0))]"
  let ?cols = "[''name'', ''namespace'', ''status'', ''created'', ''restarts'']"
  let ?objs = "map ?proj pods"
  let ?rws = "map (\<lambda>obj. map (\<lambda>col. or_else (property obj col) (JStr [])) ?cols) ?objs"
  have "map_throwing project_pod pods = Inr ?objs"
    using assms(4) by (intro map_throwing_total project_pod_present) (simp_all add: list_all_iff)
  with assms(1,2) have translated:
    "executeSQLLikeQuery env ''SELECT * FROM PODS'' = (Inr (JArr ?objs), [KubeClientInit, ListPods])"
    by (simp add: executeSQLLikeQuery_def select_pods_upper startsWith_def list_and_project_def)
  have "format_array ?objs = Inr (Tabular ?cols ?rws (length ?objs))"
  proof (rule format_array_objects)
    show "?objs \<noteq> []" using assms(3) by simp
    show "list_all isObject ?objs" by (simp add: list_all_iff)
    show "Object_keys (hd ?objs) = Inr ?cols"
      using assms(3) by (cases pods) simp_all
  qed
  then have "formatKubernetesResult env (JArr ?objs) = Inr (Tabular ?cols ?rws (length pods))"
    by (simp add: formatKubernetesResult_def)
  with translated have
    "kubernetes_execute env (JStr ''SELECT * FROM PODS'') (JStr ''sql'') =
       (Success (Tabular ?cols ?rws (length pods))
          (show_int (Date_now env 1 - Date_now env 0) @ ''ms'')
          ''SELECT * FROM PODS'' (Some (JStr ''sql'')),
        [KubeClientInit, ListPods])"
    by (simp add: kubernetes_execute_def respond_def substring0_def)
  then show ?thesis
    by (simp add: zero_default_then_empty_default Let_def)
qed

text \<open>Two pods, the second without container statuses: its \<^verbatim>\<open>restarts\<close> cell is empty.\<close>

theorem select_pods_table_witness:
  "kubernetes_execute example_cluster (JStr ''SELECT * FROM PODS'') (JStr ''sql'') =
     (Success
        (Tabular [''name'', ''namespace'', ''status'', ''created'', ''restarts'']
           [[JStr ''web-1'', JStr ''default'', JStr ''Running'', JStr ''2024-01-01T00:00:00Z'', JNum 3],
            [JStr ''job-1'', JStr ''batch'', JStr ''Pending'', JStr ''2024-01-02T00:00:00Z'', JStr []]]
           2)
        ''12ms'' ''SELECT * FROM PODS'' (Some (JStr ''sql'')),
      [KubeClientInit, ListPods])"
proof -
  let ?pods = "[JObj [(''metadata'', JObj [(''name'', JStr ''web-1''), (''namespace'', JStr ''default''),
                                   (''creationTimestamp'', JStr ''2024-01-01T00:00:00Z'')]),
               (''status'', JObj [(''phase'', JStr ''Running''),
                                 (''containerStatuses'', JArr [JObj [(''restartCount'', JNum 3)]])])],
         JObj [(''metadata'', JObj [(''name'', JStr ''job-1''), (''namespace'', JStr ''batch''),
                                   (''creationTimestamp'', JStr ''2024-01-02T00:00:00Z'')]),
               (''status'', JObj [(''phase'', JStr ''Pending'')])]]"
  have "initializeKubeClient example_cluster = None"
    and "listPodForAllNamespaces example_cluster = Inr ?pods"
    and "?pods \<noteq> []"
    and "list_all (\<lambda>pod. \<not> nullish pod \<and> \<not> nullish (property pod ''metadata'') \<and>
                        \<not> nullish (property pod ''status'')) ?pods"
    by (simp_all add: example_cluster_def)
  from select_pods_table [OF this] show ?thesis
    by (simp add: example_clock or_else_def opt_get_def inherited_JObj Object_prototype_def)
qed

section \<open>The output of a native command\<close>

lemma kubectl_branch:
  assumes "text \<noteq> []"
    and "queryType = JUndefined \<or> queryType = JStr ''kubectl''"
    and "split spaces (trim text) = command # commandArgs"
    and "command \<in> set allowedCommands"
  shows "kubernetes_execute env (JStr text) queryType =
           (respond env text (JStr ''kubectl'') (fst (executeKubectl env command commandArgs)),
            [Spawned ''kubectl'' (command # commandArgs)])"
  using assms by (auto simp: kubernetes_execute_def executeKubectl_def)

lemma respond_Inr:
  "formatKubernetesResult env result = Inr formatted \<Longrightarrow>
     respond env text queryType (Inr result) =
       Success formatted (show_int (Date_now env 1 - Date_now env 0) @ ''ms'')
         (substring0 text 200) (Some queryType)"
  by (simp add: respond_def)

lemma format_empty_list:
  "formatKubernetesResult env (JArr []) = Inr (Message ''No results found'' 0)"
  by (simp add: formatKubernetesResult_def format_array_def)

lemma format_single_object:
  "formatKubernetesResult env (JObj kvs) = Inr (Message (JSON_stringify env (JObj kvs)) 1)"
  by (simp add: formatKubernetesResult_def)

lemma respond_Inl:
  "respond env text queryType (Inl e) =
     Failure 500 ''Query execution failed'' (message e) (Some (substring0 text 200))"
  by (simp add: respond_def)

lemma respond_parsed:
  "respond env text queryType (Inr v) =
     (case formatKubernetesResult env v of
        Inr formatted \<Rightarrow>
          Success formatted (show_int (Date_now env 1 - Date_now env 0) @ ''ms'')
            (substring0 text 200) (Some queryType)
      | Inl e \<Rightarrow>
          Failure 500 ''Query execution failed'' (message e) (Some (substring0 text 200)))"
  by (simp add: respond_def)

lemma format_null_first:
  "formatKubernetesResult env (JArr (JNull # rest)) =
     Inl (TypeError ''Cannot convert undefined or null to object'')"
  by (simp add: formatKubernetesResult_def format_array_def)

text \<open>
  C9, as amended.  When an allowed native command exits with code 0, its trimmed output is
  given to \<^verbatim>\<open>JSON.parse\<close> exactly when it begins with a brace or a bracket.  If the parse
  succeeds, the parsed value is what is normalized, and the request is answered with the
  normalizer's result, or with 500 \<^verbatim>\<open>Query execution failed\<close> when the normalizer
  throws.  So the empty list gives the message \<^verbatim>\<open>No results found\<close>, a non-empty list
  whose elements are all objects a table over the keys of its first object, a single
  object the message with its dump and row count 1, and a list whose first element is
  \<^verbatim>\<open>null\<close> the 500 reply.  If the output does not begin with a brace or a bracket, or
  if it does and the parse throws, the trimmed output is normalized as plain text.
\<close>

theorem native_stdout_normalization:
  assumes "text \<noteq> []"
    and "queryType = JUndefined \<or> queryType = JStr ''kubectl''"
    and "split spaces (trim text) = command # commandArgs"
    and "command \<in> set allowedCommands"
    and "spawn env ''kubectl'' (command # commandArgs) = Closed (Some 0) stdout stderr"
  shows
    "(startsWith (trim stdout) ''{'' \<or> startsWith (trim stdout) ''['' \<longrightarrow>
        (\<forall>v. JSON_parse env (trim stdout) = Inr v \<longrightarrow>
           fst (kubernetes_execute env (JStr text) queryType) =
             (case formatKubernetesResult env v of
                Inr formatted \<Rightarrow>
                  Success formatted (show_int (Date_now env 1 - Date_now env 0) @ ''ms'')
                    (substring0 text 200) (Some (JStr ''kubectl''))
              | Inl e \<Rightarrow>
                  Failure 500 ''Query execution failed'' (message e)
                    (Some (substring0 text 200)))) \<and>
        (JSON_parse env (trim stdout) = Inr (JArr []) \<longrightarrow>
           fst (kubernetes_execute env (JStr text) queryType) =
             Success (Message ''No results found'' 0)
               (show_int (Date_now env 1 - Date_now env 0) @ ''ms'')
               (substring0 text 200) (Some (JStr ''kubectl''))) \<and>
        (\<forall>objs. JSON_parse env (trim stdout) = Inr (JArr objs) \<and> objs \<noteq> [] \<and> list_all isObject objs \<longrightarrow>
           (\<exists>cols.
              Object_keys (hd objs) = Inr cols \<and>
              fst (kubernetes_execute env (JStr text) queryType) =
                Success
                  (Tabular cols
                     (map (\<lambda>obj. map (\<lambda>col. or_else (property obj col) (JStr [])) cols) objs)
                     (length objs))
                  (show_int (Date_now env 1 - Date_now env 0) @ ''ms'')
                  (substring0 text 200) (Some (JStr ''kubectl'')))) \<and>
        (\<forall>kvs. JSON_parse env (trim stdout) = Inr (JObj kvs) \<longrightarrow>
           fst (kubernetes_execute env (JStr text) queryType) =
             Success (Message (JSON_stringify env (JObj kvs)) 1)
               (show_int (Date_now env 1 - Date_now env 0) @ ''ms'')
               (substring0 text 200) (Some (JStr ''kubectl''))) \<and>
        (\<forall>rest. JSON_parse env (trim stdout) = Inr (JArr (JNull # rest)) \<longrightarrow>
           fst (kubernetes_execute env (JStr text) queryType) =
             Failure 500 ''Query execution failed'' ''Cannot convert undefined or null to object''
               (Some (substring0 text 200))))
     \<and> (\<not> (startsWith (trim stdout) ''{'' \<or> startsWith (trim stdout) ''['') \<or>
         (\<exists>e. JSON_parse env (trim stdout) = Inl e) \<longrightarrow>
        fst (kubernetes_execute env (JStr text) queryType) =
          Success (format_text (trim stdout))
            (show_int (Date_now env 1 - Date_now env 0) @ ''ms'')
            (substring0 text 200) (Some (JStr ''kubectl'')))"
proof -
  let ?out = "trim stdout"
  let ?reply = "fst (kubernetes_execute env (JStr text) queryType)"
  let ?sent = "\<lambda>formatted. Success formatted (show_int (Date_now env 1 - Date_now env 0) @ ''ms'')
                 (substring0 text 200) (Some (JStr ''kubectl''))"
  have reply: "?reply = respond env text (JStr ''kubectl'') (fst (executeKubectl env command commandArgs))"
    using kubectl_branch [OF assms(1-4)] by simp
  have entered: "?reply = respond env text (JStr ''kubectl'') (Inr v)"
    if "startsWith ?out ''{'' \<or> startsWith ?out ''[''" "JSON_parse env ?out = Inr v" for v
  proof -
    from that assms(5) have "fst (executeKubectl env command commandArgs) = Inr v"
      by (simp add: executeKubectl_def Let_def)
    with reply show ?thesis by simp
  qed
  have general: "?reply =
      (case formatKubernetesResult env v of
         Inr formatted \<Rightarrow> ?sent formatted
       | Inl e \<Rightarrow> Failure 500 ''Query execution failed'' (message e) (Some (substring0 text 200)))"
    if "startsWith ?out ''{'' \<or> startsWith ?out ''[''" "JSON_parse env ?out = Inr v" for v
    using entered [OF that] by (simp add: respond_parsed)
  have plain: "?reply = ?sent (format_text ?out)"
    if "\<not> (startsWith ?out ''{'' \<or> startsWith ?out ''['') \<or> (\<exists>e. JSON_parse env ?out = Inl e)"
  proof -
    from that assms(5) have "fst (executeKubectl env command commandArgs) = Inr (JStr ?out)"
      by (auto simp: executeKubectl_def Let_def)
    moreover have "formatKubernetesResult env (JStr ?out) = Inr (format_text ?out)"
      by (simp add: formatKubernetesResult_def)
    ultimately show ?thesis
      using reply respond_Inr by simp
  qed
  have empty_list: "?reply = ?sent (Message ''No results found'' 0)"
    if "startsWith ?out ''{'' \<or> startsWith ?out ''[''" "JSON_parse env ?out = Inr (JArr [])"
    using general [OF that] by (simp add: format_empty_list)
  have object: "?reply = ?sent (Message (JSON_stringify env (JObj kvs)) 1)"
    if "startsWith ?out ''{'' \<or> startsWith ?out ''[''" "JSON_parse env ?out = Inr (JObj kvs)" for kvs
    using general [OF that] by (simp add: format_single_object)
  have null_first: "?reply =
      Failure 500 ''Query execution failed'' ''Cannot convert undefined or null to object''
        (Some (substring0 text 200))"
    if "startsWith ?out ''{'' \<or> startsWith ?out ''[''" "JSON_parse env ?out = Inr (JArr (JNull # rest))"
    for rest
    using general [OF that] by (simp add: format_null_first)
  have list: "\<exists>cols. Object_keys (hd objs) = Inr cols \<and>
      ?reply = ?sent (Tabular cols
                        (map (\<lambda>obj. map (\<lambda>col. or_else (property obj col) (JStr [])) cols) objs)
                        (length objs))"
    if looks: "startsWith ?out ''{'' \<or> startsWith ?out ''[''"
      and "JSON_parse env ?out = Inr (JArr objs)" "objs \<noteq> []" "list_all isObject objs" for objs
  proof -
    from that(3,4) have "isObject (hd objs)" by (cases objs) simp_all
    then obtain cols where cols: "Object_keys (hd objs) = Inr cols"
      using Object_keys_object by blast
    from format_array_objects [OF that(3,4) cols]
    have "formatKubernetesResult env (JArr objs) =
            Inr (Tabular cols
                   (map (\<lambda>obj. map (\<lambda>col. or_else (property obj col) (JStr [])) cols) objs)
                   (length objs))"
      by (simp add: formatKubernetesResult_def)
    with general [OF looks that(2)] cols show ?thesis by simp
  qed
  from general empty_list object list null_first plain show ?thesis by blast
qed

theorem native_stdout_normalization_witness:
  \<open>fst (kubernetes_execute example_cluster (JStr ''get pods -o json'') JUndefined) =
     Success (Tabular [''name''] [[JStr ''web'']] 1) ''12ms'' ''get pods -o json''
       (Some (JStr ''kubectl''))
   \<and> fst (kubernetes_execute
            (example_cluster\<lparr>spawn := (\<lambda>file argv. Closed (Some 0) (''[null]'' @ [CHR 0x0A]) []),
                             JSON_parse := (\<lambda>text. if text = ''[null]'' then Inr (JArr [JNull])
                                                    else Inl (SyntaxError ''Unexpected token''))\<rparr>)
            (JStr ''get pods -o json'') JUndefined) =
     Failure 500 ''Query execution failed'' ''Cannot convert undefined or null to object''
       (Some ''get pods -o json'')\<close>
proof -
  let ?nulls = \<open>example_cluster\<lparr>spawn := (\<lambda>file argv. Closed (Some 0) (''[null]'' @ [CHR 0x0A]) []),
                               JSON_parse := (\<lambda>text. if text = ''[null]'' then Inr (JArr [JNull])
                                                      else Inl (SyntaxError ''Unexpected token''))\<rparr>\<close>
  have printed: "trim (''[null]'' @ [CHR 0x0A]) = ''[null]''"
    by code_simp
  then have parsed: "JSON_parse ?nulls (trim (''[null]'' @ [CHR 0x0A])) = Inr (JArr [JNull])"
    by simp
  have spawned: "spawn ?nulls ''kubectl'' [''get'', ''pods'', ''-o'', ''json''] =
      Closed (Some 0) (''[null]'' @ [CHR 0x0A]) []"
    by simp
  have "split spaces (trim ''get pods -o json'') = [''get'', ''pods'', ''-o'', ''json'']"
    by code_simp
  moreover have "''get'' \<in> set allowedCommands"
    by (simp add: allowedCommands_def)
  moreover have \<open>spawn example_cluster ''kubectl'' [''get'', ''pods'', ''-o'', ''json''] =
      Closed (Some 0) ''[{"name":"web"}]'' []\<close>
    by (simp add: example_cluster_def)
  moreover have \<open>JSON_parse example_cluster (trim ''[{"name":"web"}]'') =
      Inr (JArr [JObj [(''name'', JStr ''web'')]])\<close>
    by (simp add: example_cluster_def trim_def is_space_def)
  moreover have "formatKubernetesResult example_cluster (JArr [JObj [(''name'', JStr ''web'')]]) =
      Inr (Tabular [''name''] [[JStr ''web'']] 1)"
    by code_simp
  ultimately show ?thesis
    using native_stdout_normalization
      [of "''get pods -o json''" JUndefined "''get''" "[''pods'', ''-o'', ''json'']" example_cluster
          \<open>''[{"name":"web"}]''\<close> "[]"]
      native_stdout_normalization
      [of "''get pods -o json''" JUndefined "''get''" "[''pods'', ''-o'', ''json'']" ?nulls
          "''[null]'' @ [CHR 0x0A]" "[]", unfolded printed]
      parsed [unfolded printed] spawned
    by (simp add: example_clock trim_def is_space_def startsWith_def substring0_def or_else_def
          format_null_first)
qed

text \<open>
  Log lines that begin with a bracket are not JSON: the parse throws, and the output
  takes the plain-text path although it begins with a bracket.
\<close>

theorem native_stdout_normalization_counterexample:
  "startsWith (trim (''[2024-01-01 10:00:00] server started'' @ [CHR 0x0A] @
                     ''[2024-01-01 10:00:05] ready'' @ [CHR 0x0A])) ''[''
   \<and> executeKubectl example_cluster ''logs'' [''web-1''] =
       (Inr (JStr (''[2024-01-01 10:00:00] server started'' @ [CHR 0x0A] @
                   ''[2024-01-01 10:00:05] ready'')),
        [Spawned ''kubectl'' [''logs'', ''web-1'']])
   \<and> kubernetes_execute example_cluster (JStr ''logs web-1'') JUndefined =
       (Success
          (Message (''[2024-01-01 10:00:00] server started'' @ [CHR 0x0A] @
                    ''[2024-01-01 10:00:05] ready'') 0)
          ''12ms'' ''logs web-1'' (Some (JStr ''kubectl'')),
        [Spawned ''kubectl'' [''logs'', ''web-1'']])"
  by code_simp

end
